theory Spec2Isabelle
  imports Complex_Main
begin

chapter \<open>The pitch intelligence engine of \<open>pollGame.js\<close>\<close>

text \<open>
  A shallow embedding of the engine: the pitch-family classifier, the coordinate
  resolver with its cache, the statistical context store, the tunnel detector, the
  prediction mixer, the optimal pitch recommender and the replay step; then the
  properties proved of them.

  JavaScript numbers are modelled as \<^typ>\<open>real\<close> (counters, ids and indices as
  \<^typ>\<open>nat\<close>), strings as \<^typ>\<open>string\<close>, and \<open>null\<close>/\<open>undefined\<close> as \<open>None\<close>. Module-level
  variables are the fields of the record \<open>store\<close>: a function that assigns to one takes
  the state and returns the new one, a function that only reads takes the state. A
  throw is the value \<open>Inl TypeError\<close>.
\<close>

section \<open>Pitch families and the pitch-code classifier\<close>

text \<open>The three family names \<open>"fastball"\<close>, \<open>"breaking"\<close>, \<open>"change"\<close>.\<close>

datatype family = Fastball | Breaking | Change

text \<open>\<open>String.prototype.toUpperCase\<close> and \<open>toLowerCase\<close> on ASCII letters.\<close>

definition upper_char :: "char \<Rightarrow> char" where
  "upper_char c =
     (let n = (of_char c :: nat) in if 97 \<le> n \<and> n \<le> 122 then char_of (n - 32) else c)"

definition lower_char :: "char \<Rightarrow> char" where
  "lower_char c =
     (let n = (of_char c :: nat) in if 65 \<le> n \<and> n \<le> 90 then char_of (n + 32) else c)"

definition toUpperCase :: "string \<Rightarrow> string" where
  "toUpperCase s = map upper_char s"

definition toLowerCase :: "string \<Rightarrow> string" where
  "toLowerCase s = map lower_char s"

text \<open>\<open>String.prototype.includes\<close>: \<open>str_includes s t\<close> is \<open>s.includes(t)\<close>.\<close>

fun starts_with :: "string \<Rightarrow> string \<Rightarrow> bool" where
  "starts_with s [] = True"
| "starts_with [] (y # ys) = False"
| "starts_with (x # xs) (y # ys) = (x = y \<and> starts_with xs ys)"

fun str_includes :: "string \<Rightarrow> string \<Rightarrow> bool" where
  "str_includes [] t = (t = [])"
| "str_includes (x # xs) t = (starts_with (x # xs) t \<or> str_includes xs t)"

text \<open>The code lists of \<open>mapPitchCodeToBucket\<close>, in the order of its four tests.\<close>

definition fastball_codes :: "string list" where
  "fastball_codes = [''FF'', ''FT'', ''SI'', ''FC'', ''FA'']"

definition splitter_codes :: "string list" where
  "splitter_codes = [''FS'']"

definition change_codes :: "string list" where
  "change_codes = [''CH'', ''SF'', ''FO'', ''SC'']"

definition breaking_codes :: "string list" where
  "breaking_codes = [''SL'', ''CU'', ''KC'', ''KN'', ''SV'', ''ST'', ''SW'']"

definition known_codes :: "string list" where
  "known_codes = fastball_codes @ splitter_codes @ change_codes @ breaking_codes"

text \<open>
  \<open>mapPitchCodeToBucket(code)\<close>: an absent or empty code (\<open>!code\<close>) gives \<open>null\<close>;
  otherwise the code is upper-cased, \<open>FT\<close> becomes \<open>SI\<close> and \<open>ST\<close> becomes \<open>SW\<close>, and
  the four membership tests run in order, with \<open>fastball\<close> as the fallback.
\<close>

definition mapPitchCodeToBucket :: "string option \<Rightarrow> family option" where
  "mapPitchCodeToBucket code =
     (case code of
        None \<Rightarrow> None
      | Some s \<Rightarrow>
          if s = [] then None
          else
            let c = toUpperCase s;
                normalized = (if c = ''FT'' then ''SI'' else if c = ''ST'' then ''SW'' else c)
            in if normalized \<in> set fastball_codes then Some Fastball
               else if normalized \<in> set splitter_codes then Some Change
               else if normalized \<in> set change_codes then Some Change
               else if normalized \<in> set breaking_codes then Some Breaking
               else Some Fastball)"

section \<open>Distributions and the league table\<close>

text \<open>
  A family-share object \<open>{ fastball, breaking, change }\<close>. \<open>normalize\<close> of the source,
  here \<open>normalize_mix\<close>, sums the values (\<open>reduce\<close> from 0), replaces a zero sum by 1
  (\<open>|| 1\<close>) and divides every entry by it.
\<close>

record mix =
  fastball :: real
  breaking :: real
  change :: real

definition mix_sum :: "mix \<Rightarrow> real" where
  "mix_sum obj = 0 + fastball obj + breaking obj + change obj"

definition normalize_mix :: "mix \<Rightarrow> mix" where
  "normalize_mix obj =
     (let s = (if mix_sum obj = 0 then 1 else mix_sum obj)
      in \<lparr>fastball = fastball obj / s, breaking = breaking obj / s, change = change obj / s\<rparr>)"

text \<open>
  \<open>leaguePitchMixByCount\<close>, keyed in the source by the string \<open>balls-strikes\<close>; the key is
  modelled as the pair of the two counts.
\<close>

definition leaguePitchMixByCount :: "nat \<times> nat \<Rightarrow> mix option" where
  "leaguePitchMixByCount = map_of
     [((0, 0), \<lparr>fastball = 0.63, breaking = 0.25, change = 0.12\<rparr>),
      ((0, 1), \<lparr>fastball = 0.55, breaking = 0.3, change = 0.15\<rparr>),
      ((0, 2), \<lparr>fastball = 0.4, breaking = 0.43, change = 0.17\<rparr>),
      ((1, 0), \<lparr>fastball = 0.7, breaking = 0.2, change = 0.1\<rparr>),
      ((1, 1), \<lparr>fastball = 0.58, breaking = 0.3, change = 0.12\<rparr>),
      ((1, 2), \<lparr>fastball = 0.42, breaking = 0.45, change = 0.13\<rparr>),
      ((2, 0), \<lparr>fastball = 0.72, breaking = 0.18, change = 0.1\<rparr>),
      ((2, 1), \<lparr>fastball = 0.6, breaking = 0.28, change = 0.12\<rparr>),
      ((2, 2), \<lparr>fastball = 0.5, breaking = 0.38, change = 0.12\<rparr>),
      ((3, 0), \<lparr>fastball = 0.85, breaking = 0.1, change = 0.05\<rparr>),
      ((3, 1), \<lparr>fastball = 0.75, breaking = 0.15, change = 0.1\<rparr>),
      ((3, 2), \<lparr>fastball = 0.7, breaking = 0.2, change = 0.1\<rparr>)]"

section \<open>The game feed\<close>

text \<open>
  The parts of the feed the engine reads. A field read through \<open>?.\<close> or tested against
  \<open>null\<close> is an option; a field read without a guard is mandatory.
\<close>

record pdCoordinates =
  pX :: "real option"
  pZ :: "real option"

record pitchData =
  pd_coordinates :: "pdCoordinates option"
  pd_strikeZoneTop :: "real option"
  pd_strikeZoneBottom :: "real option"
  pd_startSpeed :: "real option"
  pd_pitchNumber :: "nat option"

record dCoordinates =
  d_px :: "real option"
  d_pz :: "real option"
  d_strikeZoneTop :: "real option"
  d_strikeZoneBottom :: "real option"

record details =
  d_coordinates :: "dCoordinates option"
  description :: "string option"
  isInPlay :: bool
  type_code :: "string option"
  d_startSpeed :: "real option"
  d_pitchNumber :: "nat option"

record breaks =
  breakHorizontal :: "real option"
  breakVerticalInduced :: "real option"
  breakAngle :: "real option"
  breakLength :: "real option"

record pitch =
  pitchNumber :: "nat option"
  details :: "details option"
  pitchData :: "pitchData option"
  breaks :: "breaks option"
  isPitch :: bool
  count_balls :: "nat option"
  count_strikes :: "nat option"
  launchSpeed :: "real option"

record play =
  about_atBatIndex :: "nat option"
  about_inning :: nat
  about_halfInning :: string
  playEvents :: "pitch list"
  pitcher_id :: nat
  batter_id :: nat
  pitchHand :: "string option"
  batSide :: "string option"
  runners :: "nat list option"
  eventType :: "string option"
  event :: "string option"

type_synonym game = "play list"

datatype error = TypeError

text \<open>\<open>xs[i]\<close> on a JavaScript array: \<open>undefined\<close> out of range.\<close>

definition at_index :: "'a list \<Rightarrow> nat \<Rightarrow> 'a option" where
  "at_index xs i = (if i < length xs then Some (xs ! i) else None)"

text \<open>The \<open>??\<close> operator.\<close>

definition orElse :: "'a option \<Rightarrow> 'a option \<Rightarrow> 'a option" where
  "orElse a b = (case a of Some x \<Rightarrow> Some x | None \<Rightarrow> b)"

definition orDefault :: "'a option \<Rightarrow> 'a \<Rightarrow> 'a" where
  "orDefault a d = (case a of Some x \<Rightarrow> x | None \<Rightarrow> d)"

text \<open>\<open>pitch.pitchNumber ?? pitch.details?.pitchNumber ?? pitch.pitchData?.pitchNumber\<close>.\<close>

definition pitchNum_of :: "pitch \<Rightarrow> nat option" where
  "pitchNum_of p =
     orElse (pitchNumber p)
       (orElse (Option.bind (details p) d_pitchNumber) (Option.bind (pitchData p) pd_pitchNumber))"

text \<open>\<open>pitch.pitchData?.startSpeed ?? pitch.details?.startSpeed ?? null\<close>.\<close>

definition startSpeed_of :: "pitch \<Rightarrow> real option" where
  "startSpeed_of p =
     orElse (Option.bind (pitchData p) pd_startSpeed) (Option.bind (details p) d_startSpeed)"

definition description_of :: "pitch \<Rightarrow> string option" where
  "description_of p = Option.bind (details p) description"

definition code_of :: "pitch \<Rightarrow> string option" where
  "code_of p = Option.bind (details p) type_code"

section \<open>Best available coordinates\<close>

text \<open>
  One record for every coordinate object of the source: the result of
  \<open>extractCoordinatesFromPitch\<close>, a cache entry and the result of \<open>getPitchCoordinates\<close>.
  A flag the object does not carry is \<open>False\<close> (falsy \<open>undefined\<close>), any other field it
  does not carry is \<open>None\<close>. The field \<open>length\<close> of the source is \<open>length_br\<close>.
\<close>

record coord =
  hasLocation :: bool
  isBreakData :: bool
  px :: "real option"
  pz :: "real option"
  szTop :: "real option"
  szBot :: "real option"
  hb :: "real option"
  vb :: "real option"
  angle :: "real option"
  length_br :: "real option"

definition noLocation :: coord where
  "noLocation = \<lparr>hasLocation = False, isBreakData = False, px = None, pz = None, szTop = None,
     szBot = None, hb = None, vb = None, angle = None, length_br = None\<rparr>"

text \<open>
  The cache key \<open>atBatIndex-pitchNum\<close> of \<open>getCoordKey\<close>: the at-bat index, or
  \<open>inning-halfInning\<close> when the index is absent, and the pitch number, or 0. The
  concatenated string is modelled as the pair of its two parts.
\<close>

datatype atBatKey = AtBat nat | InningHalf nat string

type_synonym coordKey = "atBatKey \<times> nat"

definition getCoordKey :: "play \<Rightarrow> pitch \<Rightarrow> coordKey" where
  "getCoordKey pl p =
     ((case about_atBatIndex pl of Some i \<Rightarrow> AtBat i
       | None \<Rightarrow> InningHalf (about_inning pl) (about_halfInning pl)),
      orDefault (pitchNum_of p) 0)"

type_synonym coordCache = "coordKey \<Rightarrow> coord option"

definition storeCoordsInCache :: "coordCache \<Rightarrow> play \<Rightarrow> pitch \<Rightarrow> coord \<Rightarrow> coordCache" where
  "storeCoordsInCache cache pl p c =
     cache(getCoordKey pl p \<mapsto>
       \<lparr>hasLocation = False, isBreakData = False,
        px = px c, pz = pz c,
        szTop = Some (orDefault (szTop c) 3.5), szBot = Some (orDefault (szBot c) 1.5),
        hb = hb c, vb = vb c, angle = angle c, length_br = length_br c\<rparr>)"

definition extractCoordinatesFromPitch :: "pitch \<Rightarrow> coord" where
  "extractCoordinatesFromPitch p =
     (case (case Option.bind (pitchData p) pd_coordinates of
              Some pd \<Rightarrow> (case (pX pd, pZ pd) of (Some x, Some z) \<Rightarrow> Some (x, z) | _ \<Rightarrow> None)
            | None \<Rightarrow> None) of
        Some (x, z) \<Rightarrow>
          noLocation\<lparr>hasLocation := True, px := Some x, pz := Some z,
            szTop := Some (orDefault (Option.bind (pitchData p) pd_strikeZoneTop) 3.5),
            szBot := Some (orDefault (Option.bind (pitchData p) pd_strikeZoneBottom) 1.5)\<rparr>
      | None \<Rightarrow>
          (case Option.bind (details p) d_coordinates of
             Some dc \<Rightarrow>
               (case (d_px dc, d_pz dc) of
                  (Some x, Some z) \<Rightarrow>
                    noLocation\<lparr>hasLocation := True, px := Some x, pz := Some z,
                      szTop := Some (orDefault (d_strikeZoneTop dc) 3.5),
                      szBot := Some (orDefault (d_strikeZoneBottom dc) 1.5)\<rparr>
                | _ \<Rightarrow> noLocation)
           | None \<Rightarrow> noLocation))"

text \<open>
  The movement-only pair built from a \<open>breaks\<close> block whose two break magnitudes are
  present: the object stored in the cache and the object returned.
\<close>

definition movementOf :: "breaks \<Rightarrow> (coord \<times> coord) option" where
  "movementOf br =
     (case (breakHorizontal br, breakVerticalInduced br) of
        (Some h, Some v) \<Rightarrow>
          Some (noLocation\<lparr>szTop := Some 3.5, szBot := Some 1.5, hb := Some h, vb := Some v,
                  angle := breakAngle br, length_br := breakLength br\<rparr>,
                noLocation\<lparr>isBreakData := True, hb := Some h, vb := Some v,
                  angle := breakAngle br, length_br := breakLength br\<rparr>)
      | _ \<Rightarrow> None)"

text \<open>
  Tier 3, the two nested loops: the first pitch event of the game with the same at-bat
  index and pitch number that carries a location or a movement pair. The result is the
  pair (object to store, object to return).
\<close>

fun searchEvents :: "nat \<Rightarrow> pitch list \<Rightarrow> (coord \<times> coord) option" where
  "searchEvents n [] = None"
| "searchEvents n (ev # evs) =
     (if \<not> isPitch ev then searchEvents n evs
      else if pitchNum_of ev \<noteq> Some n then searchEvents n evs
      else let evCoord = extractCoordinatesFromPitch ev in
        if hasLocation evCoord then Some (evCoord, evCoord)
        else (case Option.bind (breaks ev) movementOf of
                Some r \<Rightarrow> Some r
              | None \<Rightarrow> searchEvents n evs))"

fun searchPlays :: "nat \<Rightarrow> nat \<Rightarrow> play list \<Rightarrow> (coord \<times> coord) option" where
  "searchPlays a n [] = None"
| "searchPlays a n (p2 # ps) =
     (if about_atBatIndex p2 \<noteq> Some a then searchPlays a n ps
      else (case searchEvents n (playEvents p2) of
              Some r \<Rightarrow> Some r
            | None \<Rightarrow> searchPlays a n ps))"

text \<open>
  \<open>getPitchCoordinates(game, playIdx, pitchIdx)\<close>, with the cache passed in and returned.
  A play index out of range makes \<open>play.playEvents\<close> throw; a pitch index out of range
  returns the no-location object.
\<close>

definition getPitchCoordinates ::
  "game \<Rightarrow> nat \<Rightarrow> nat \<Rightarrow> coordCache \<Rightarrow> error + (coord \<times> coordCache)" where
  "getPitchCoordinates g playIdx pitchIdx cache =
     (case at_index g playIdx of
        None \<Rightarrow> Inl TypeError
      | Some pl \<Rightarrow>
        (case at_index (playEvents pl) pitchIdx of
           None \<Rightarrow> Inr (noLocation, cache)
         | Some p \<Rightarrow>
           let direct = extractCoordinatesFromPitch p in
           if hasLocation direct then Inr (direct, storeCoordsInCache cache pl p direct)
           else
             (case Option.bind (breaks p) movementOf of
                Some (stored, ret) \<Rightarrow> Inr (ret, storeCoordsInCache cache pl p stored)
              | None \<Rightarrow>
                (case (pitchNum_of p, about_atBatIndex pl) of
                   (Some n, Some a) \<Rightarrow>
                     (case cache (getCoordKey pl p) of
                        Some c \<Rightarrow>
                          let hasLoc = (px c \<noteq> None \<and> pz c \<noteq> None) in
                          Inr (\<lparr>hasLocation = hasLoc,
                                isBreakData = (\<not> hasLoc \<and> (hb c \<noteq> None \<or> vb c \<noteq> None)),
                                px = px c, pz = pz c, szTop = szTop c, szBot = szBot c,
                                hb = hb c, vb = vb c, angle = angle c,
                                length_br = length_br c\<rparr>, cache)
                      | None \<Rightarrow>
                          (case searchPlays a n g of
                             Some (stored, ret) \<Rightarrow>
                               Inr (ret, storeCoordsInCache cache pl p stored)
                           | None \<Rightarrow> Inr (noLocation, cache)))
                 | _ \<Rightarrow> Inr (noLocation, cache)))))"

section \<open>Location classification\<close>

datatype height = HIGH | MID | LOW

datatype horizontal = ARM | MIDDLE | GLOVE

text \<open>The zone label \<open>HEIGHT_HORIZONTAL\<close> as the pair of its two parts.\<close>

type_synonym zone = "height \<times> horizontal"

definition classifyLocation ::
  "real option \<Rightarrow> real option \<Rightarrow> real option \<Rightarrow> real option \<Rightarrow> zone option" where
  "classifyLocation x z zTop zBot =
     (case (x, z, zTop, zBot) of
        (Some x, Some z, Some zTop, Some zBot) \<Rightarrow>
          let horizontal = (if x > 0.5 then ARM else if x < - 0.5 then GLOVE else MIDDLE);
              zoneHeight = zTop - zBot;
              highThresh = zTop - zoneHeight / 3;
              lowThresh = zBot + zoneHeight / 3;
              height = (if z \<ge> highThresh then HIGH else if z \<le> lowThresh then LOW else MID)
          in Some (height, horizontal)
      | _ \<Rightarrow> None)"

section \<open>Tunnel detection\<close>

text \<open>
  The object \<open>{ lastPitchType, location }\<close> kept in \<open>lastCtx\<close>; the full prediction
  context extends it.
\<close>

record tempCtx =
  lastPitchType :: "string option"
  location :: "coord option"

text \<open>The label of a tunnel: the three named patterns, the generic pattern built from the
  two codes, and the default text.\<close>

datatype tunnelLabel =
    PitchTunnelDetected
  | FastballSliderTunnel
  | FastballChangeFadeTunnel
  | SliderCurveballBreakStack
  | CodesTunnel string string

record tunnel =
  pxDiff :: real
  pzDiff :: real
  hbDiff :: real
  vbDiff :: real
  totalBreakDiff :: real
  label :: tunnelLabel

definition TUNNEL_HORIZONTAL_THRESHOLD :: real where
  "TUNNEL_HORIZONTAL_THRESHOLD = 0.3"

definition TUNNEL_VERTICAL_THRESHOLD :: real where
  "TUNNEL_VERTICAL_THRESHOLD = 0.3"

definition TUNNEL_BREAK_DIFF_THRESHOLD :: real where
  "TUNNEL_BREAK_DIFF_THRESHOLD = 3.0"

definition tunnelLabelOf :: "string option \<Rightarrow> string option \<Rightarrow> tunnelLabel" where
  "tunnelLabelOf prevType currType =
     (case (prevType, currType) of
        (Some pt, Some ct) \<Rightarrow>
          if pt = [] \<or> ct = [] then PitchTunnelDetected
          else
            let p = toUpperCase pt; c = toUpperCase ct in
            if (p = ''FF'' \<or> p = ''SI'') \<and> (c = ''SL'' \<or> c = ''SW'') then FastballSliderTunnel
            else if (p = ''FF'' \<or> p = ''SI'') \<and> c = ''CH'' then FastballChangeFadeTunnel
            else if p = ''SL'' \<and> c = ''CU'' then SliderCurveballBreakStack
            else CodesTunnel pt ct
      | _ \<Rightarrow> PitchTunnelDetected)"

definition detectTunnel ::
  "'a tempCtx_scheme option \<Rightarrow> 'b tempCtx_scheme option \<Rightarrow> tunnel option" where
  "detectTunnel prevCtx currCtx =
     (case (prevCtx, currCtx) of
        (Some pc, Some cc) \<Rightarrow>
          (case (location pc, location cc) of
             (Some A, Some B) \<Rightarrow>
               if \<not> hasLocation A \<and> \<not> isBreakData A then None
               else if \<not> hasLocation B \<and> \<not> isBreakData B then None
               else
                 let pxA = orDefault (px A) 0; pxB = orDefault (px B) 0;
                     pzA = orDefault (pz A) 0; pzB = orDefault (pz B) 0;
                     pxD = \<bar>pxA - pxB\<bar>; pzD = \<bar>pzA - pzB\<bar>;
                     earlyAligned =
                       (pxD < TUNNEL_HORIZONTAL_THRESHOLD \<and> pzD < TUNNEL_VERTICAL_THRESHOLD)
                 in if \<not> earlyAligned then None
                    else
                      let hbD = \<bar>orDefault (hb A) 0 - orDefault (hb B) 0\<bar>;
                          vbD = \<bar>orDefault (vb A) 0 - orDefault (vb B) 0\<bar>;
                          totalD = hbD + vbD
                      in if totalD < TUNNEL_BREAK_DIFF_THRESHOLD then None
                         else Some \<lparr>pxDiff = pxD, pzDiff = pzD, hbDiff = hbD, vbDiff = vbD,
                                totalBreakDiff = totalD,
                                label = tunnelLabelOf (lastPitchType pc) (lastPitchType cc)\<rparr>
           | _ \<Rightarrow> None)
      | _ \<Rightarrow> None)"

section \<open>The statistical context store\<close>

text \<open>The six counters of a family bucket, and the three rates that
  \<open>getBatterVsPitchProfile\<close> attaches to it.\<close>

record famStats =
  seen :: nat
  swings :: nat
  whiffs :: nat
  inPlay :: nat
  hits :: nat
  hardHit :: nat
  whiffRate :: "real option"
  hitRate :: "real option"
  hardHitRate :: "real option"

definition zeroStats :: famStats where
  "zeroStats = \<lparr>seen = 0, swings = 0, whiffs = 0, inPlay = 0, hits = 0, hardHit = 0,
     whiffRate = None, hitRate = None, hardHitRate = None\<rparr>"

text \<open>An entry of \<open>pitcherGameStats\<close>: the fields \<open>fastball\<close>, \<open>breaking\<close>, \<open>change\<close> and
  \<open>total\<close> of the source, and the entries of the aggression and command stores.\<close>

record gameStats =
  n_fastball :: nat
  n_breaking :: nat
  n_change :: nat
  n_total :: nat

record aggression =
  ag_swings :: nat
  ag_pitches :: nat

record command =
  pitches :: nat
  missesHigh :: nat
  missesLow :: nat
  missesArm :: nat
  missesGlove :: nat
  velos :: "real list"

text \<open>The result of \<open>getBatterVsPitchProfile\<close>: the batter's three buckets (the spread
  \<open>...raw\<close>), the score object \<open>vuln\<close> and \<open>topWeakFamily\<close>.\<close>

record profile =
  raw :: "family \<Rightarrow> famStats option"
  vuln :: mix
  topWeakFamily :: "family option"

text \<open>The module-level state. Arsenal baselines are loaded once and never reset.\<close>

record store =
  pitchCoordCache :: coordCache
  pitcherGameStats :: "nat \<Rightarrow> gameStats option"
  batterAggressionStats :: "nat \<Rightarrow> aggression option"
  pitcherArsenalById :: "nat \<Rightarrow> mix option"
  batterVsPitchStats :: "nat \<Rightarrow> (family \<Rightarrow> famStats option) option"
  batterVsZoneStats :: "nat \<Rightarrow> zone \<Rightarrow> family \<Rightarrow> famStats option"
  pitcherCommandStats :: "nat \<Rightarrow> command option"
  pitchSequence :: "string list"
  lastCtx :: "tempCtx option"
  lastPitcherId :: "nat option"
  lastBatterId :: "nat option"
  simulatedOuts :: nat
  simInning :: "nat option"
  simHalf :: "string option"
  replayModeActive :: bool
  pitchPointer :: nat
  pitchIndexMap :: "(nat \<times> nat) list"

definition share :: "mix \<Rightarrow> family \<Rightarrow> real" where
  "share m fam = (case fam of Fastball \<Rightarrow> fastball m | Breaking \<Rightarrow> breaking m | Change \<Rightarrow> change m)"

subsection \<open>Zone effectiveness\<close>

definition ensureBatterZoneFamily :: "nat \<Rightarrow> zone \<Rightarrow> family \<Rightarrow> store \<Rightarrow> store" where
  "ensureBatterZoneFamily batterId z fam st =
     (case batterVsZoneStats st batterId z fam of
        Some _ \<Rightarrow> st
      | None \<Rightarrow>
          st\<lparr>batterVsZoneStats :=
               (batterVsZoneStats st)(batterId :=
                 (batterVsZoneStats st batterId)(z :=
                   (batterVsZoneStats st batterId z)(fam \<mapsto> zeroStats)))\<rparr>)"

text \<open>The weighted score shared by \<open>getBatterZoneEV\<close> and \<open>getBatterVsPitchProfile\<close>.\<close>

definition rate :: "nat \<Rightarrow> nat \<Rightarrow> real" where
  "rate num den = (if den > 0 then real num / real den else 0)"

definition weightedScore :: "famStats \<Rightarrow> real" where
  "weightedScore s =
     (let whiffR = rate (whiffs s) (swings s);
          hitR = rate (hits s) (inPlay s);
          hhR = rate (hardHit s) (inPlay s)
      in 0.6 * whiffR + 0.25 * (1 - hitR) + 0.15 * (1 - hhR))"

definition getBatterZoneEV :: "store \<Rightarrow> nat \<Rightarrow> zone \<Rightarrow> family \<Rightarrow> real option" where
  "getBatterZoneEV st batterId z fam =
     (case batterVsZoneStats st batterId z fam of
        None \<Rightarrow> None
      | Some s \<Rightarrow> if seen s < 3 then None else Some (weightedScore s))"

subsection \<open>Command and fatigue\<close>

definition newCommand :: command where
  "newCommand = \<lparr>pitches = 0, missesHigh = 0, missesLow = 0, missesArm = 0, missesGlove = 0,
     velos = []\<rparr>"

definition pushVelo :: "real list \<Rightarrow> real \<Rightarrow> real list" where
  "pushVelo vs v = (let vs' = vs @ [v] in if length vs' > 8 then tl vs' else vs')"

text \<open>
  \<open>updatePitcherCommand(play, pitch, location)\<close> on one pitcher's record: the speed is
  pushed when it is a number, the four miss tests run when the location is present and
  has a true location, and the pitch is counted. Every object with \<open>hasLocation\<close> set that
  the resolver builds carries the four fields read here; a comparison with an absent
  field is false.
\<close>

definition num_gt :: "real option \<Rightarrow> real option \<Rightarrow> bool" where
  "num_gt a b = (case (a, b) of (Some x, Some y) \<Rightarrow> x > y | _ \<Rightarrow> False)"

definition num_lt :: "real option \<Rightarrow> real option \<Rightarrow> bool" where
  "num_lt a b = (case (a, b) of (Some x, Some y) \<Rightarrow> x < y | _ \<Rightarrow> False)"

definition commandStep :: "command \<Rightarrow> real option \<Rightarrow> coord option \<Rightarrow> command" where
  "commandStep cs v loc =
     (let cs1 = (case v of Some x \<Rightarrow> cs\<lparr>velos := pushVelo (velos cs) x\<rparr> | None \<Rightarrow> cs);
          cs2 =
            (case loc of
               None \<Rightarrow> cs1
             | Some l \<Rightarrow>
                 if hasLocation l then
                   let margin = 0.1;
                       a = (if num_gt (pz l) (map_option (\<lambda>t. t + margin) (szTop l))
                            then cs1\<lparr>missesHigh := missesHigh cs1 + 1\<rparr> else cs1);
                       b = (if num_lt (pz l) (map_option (\<lambda>t. t - margin) (szBot l))
                            then a\<lparr>missesLow := missesLow a + 1\<rparr> else a);
                       c = (if num_gt (px l) (Some 1.7)
                            then b\<lparr>missesArm := missesArm b + 1\<rparr> else b);
                       d = (if num_lt (px l) (Some (- 1.7))
                            then c\<lparr>missesGlove := missesGlove c + 1\<rparr> else c)
                   in d
                 else cs1)
      in cs2\<lparr>pitches := pitches cs2 + 1\<rparr>)"

definition updatePitcherCommand :: "play \<Rightarrow> pitch \<Rightarrow> coord option \<Rightarrow> store \<Rightarrow> store" where
  "updatePitcherCommand pl p loc st =
     (let pid = pitcher_id pl;
          cs = orDefault (pitcherCommandStats st pid) newCommand
      in st\<lparr>pitcherCommandStats :=
              (pitcherCommandStats st)(pid \<mapsto> commandStep cs (startSpeed_of p) loc)\<rparr>)"

definition getPitcherWildness :: "store \<Rightarrow> nat \<Rightarrow> real" where
  "getPitcherWildness st pid =
     (case pitcherCommandStats st pid of
        None \<Rightarrow> 0
      | Some cs \<Rightarrow>
          if pitches cs < 10 then 0
          else real (missesHigh cs + missesLow cs + missesArm cs + missesGlove cs)
                 / real (pitches cs))"

definition getPitcherVeloTrend :: "store \<Rightarrow> nat \<Rightarrow> real" where
  "getPitcherVeloTrend st pid =
     (case pitcherCommandStats st pid of
        None \<Rightarrow> 0
      | Some cs \<Rightarrow>
          if length (velos cs) < 4 then 0
          else
            let n = length (velos cs);
                recentAvg = (velos cs ! (n - 1) + velos cs ! (n - 2)) / 2;
                earlyAvg = (velos cs ! 0 + velos cs ! 1) / 2
            in recentAvg - earlyAvg)"

subsection \<open>Pitcher usage and batter aggression\<close>

definition newGameStats :: gameStats where
  "newGameStats = \<lparr>n_fastball = 0, n_breaking = 0, n_change = 0, n_total = 0\<rparr>"

definition updatePitcherStats :: "play \<Rightarrow> pitch \<Rightarrow> store \<Rightarrow> store" where
  "updatePitcherStats pl p st =
     (let pitcherId = pitcher_id pl in
      case mapPitchCodeToBucket (code_of p) of
        None \<Rightarrow> st
      | Some bucket \<Rightarrow>
          let stats = orDefault (pitcherGameStats st pitcherId) newGameStats;
              stats1 = (case bucket of
                          Fastball \<Rightarrow> stats\<lparr>n_fastball := n_fastball stats + 1\<rparr>
                        | Breaking \<Rightarrow> stats\<lparr>n_breaking := n_breaking stats + 1\<rparr>
                        | Change \<Rightarrow> stats\<lparr>n_change := n_change stats + 1\<rparr>)
          in st\<lparr>pitcherGameStats :=
                  (pitcherGameStats st)(pitcherId \<mapsto> stats1\<lparr>n_total := n_total stats1 + 1\<rparr>)\<rparr>)"

definition getPitcherGameMix :: "store \<Rightarrow> nat \<Rightarrow> mix option" where
  "getPitcherGameMix st pitcherId =
     (case pitcherGameStats st pitcherId of
        None \<Rightarrow> None
      | Some stats \<Rightarrow>
          if n_total stats = 0 then None
          else Some (normalize_mix \<lparr>fastball = real (n_fastball stats),
                      breaking = real (n_breaking stats), change = real (n_change stats)\<rparr>))"

definition isInPlay_of :: "pitch \<Rightarrow> bool" where
  "isInPlay_of p = (case details p of Some d \<Rightarrow> isInPlay d | None \<Rightarrow> False)"

definition isSwing :: "pitch \<Rightarrow> bool" where
  "isSwing p =
     (let d = toLowerCase (orDefault (description_of p) []) in
      if isInPlay_of p then True
      else if str_includes d ''swinging'' then True
      else if str_includes d ''foul'' then True
      else if str_includes d ''in play'' then True
      else False)"

definition updateBatterStats :: "play \<Rightarrow> pitch \<Rightarrow> store \<Rightarrow> store" where
  "updateBatterStats pl p st =
     (let batterId = batter_id pl;
          stats = orDefault (batterAggressionStats st batterId) \<lparr>ag_swings = 0, ag_pitches = 0\<rparr>;
          stats1 = stats\<lparr>ag_pitches := ag_pitches stats + 1\<rparr>;
          stats2 = (if isSwing p then stats1\<lparr>ag_swings := ag_swings stats1 + 1\<rparr> else stats1)
      in st\<lparr>batterAggressionStats := (batterAggressionStats st)(batterId \<mapsto> stats2)\<rparr>)"

definition getBatterAggression :: "store \<Rightarrow> nat \<Rightarrow> real option" where
  "getBatterAggression st batterId =
     (case batterAggressionStats st batterId of
        None \<Rightarrow> None
      | Some stats \<Rightarrow>
          if ag_pitches stats = 0 then None
          else Some (real (ag_swings stats) / real (ag_pitches stats)))"

definition getPitcherArsenalMix :: "store \<Rightarrow> nat \<Rightarrow> mix option" where
  "getPitcherArsenalMix st pitcherId = pitcherArsenalById st pitcherId"

subsection \<open>Batter against pitch family\<close>

definition ensureBatterFamily :: "nat \<Rightarrow> family \<Rightarrow> store \<Rightarrow> store" where
  "ensureBatterFamily batterId fam st =
     (let entry = (case batterVsPitchStats st batterId of
                     None \<Rightarrow> (\<lambda>f. Some zeroStats)
                   | Some e \<Rightarrow> e);
          entry1 = (case entry fam of None \<Rightarrow> entry(fam \<mapsto> zeroStats) | Some _ \<Rightarrow> entry)
      in st\<lparr>batterVsPitchStats := (batterVsPitchStats st)(batterId \<mapsto> entry1)\<rparr>)"

text \<open>The counter increments that \<open>updateBatterVsPitchStats\<close> applies to the family
  bucket and, when a zone is known, to the zone bucket.\<close>

definition bumpStats :: "famStats \<Rightarrow> bool \<Rightarrow> bool \<Rightarrow> bool \<Rightarrow> bool \<Rightarrow> bool \<Rightarrow> famStats" where
  "bumpStats s swung swingingStrike inPl isHit hard =
     s\<lparr>seen := seen s + 1,
       swings := (if swung then swings s + 1 else swings s),
       whiffs := (if swingingStrike then whiffs s + 1 else whiffs s),
       inPlay := (if inPl then inPlay s + 1 else inPlay s),
       hits := (if isHit then hits s + 1 else hits s),
       hardHit := (if hard then hardHit s + 1 else hardHit s)\<rparr>"

definition isHitEvent :: "play \<Rightarrow> bool" where
  "isHitEvent pl =
     (let evType = toLowerCase (orDefault (eventType pl) []) in
      str_includes evType ''single'' \<or> str_includes evType ''double''
      \<or> str_includes evType ''triple'' \<or> str_includes evType ''home_run''
      \<or> str_includes evType ''home run'')"

definition isHardHit :: "pitch \<Rightarrow> bool" where
  "isHardHit p = (case launchSpeed p of Some ls \<Rightarrow> ls \<ge> 95 | None \<Rightarrow> False)"

definition updateBatterVsPitchStats ::
  "play \<Rightarrow> pitch \<Rightarrow> family option \<Rightarrow> bool \<Rightarrow> zone option \<Rightarrow> store \<Rightarrow> store" where
  "updateBatterVsPitchStats pl p bucket isLastPitch zoneForThisPitch st =
     (case bucket of
        None \<Rightarrow> st
      | Some fam \<Rightarrow>
          let batterId = batter_id pl;
              st1 = ensureBatterFamily batterId fam st;
              entry = orDefault (batterVsPitchStats st1 batterId) (\<lambda>f. None);
              stats = orDefault (entry fam) zeroStats;
              desc = toLowerCase (orDefault (description_of p) []);
              swung = isSwing p;
              swingingStrike = (swung \<and> str_includes desc ''swinging''
                                \<and> \<not> str_includes desc ''foul'' \<and> \<not> str_includes desc ''in play'');
              inPl = (isInPlay_of p \<or> str_includes desc ''in play'');
              isHit = (if isLastPitch then isHitEvent pl else False);
              hard = (if isLastPitch then isHardHit p else False);
              st2 = st1\<lparr>batterVsPitchStats :=
                          (batterVsPitchStats st1)(batterId \<mapsto>
                             entry(fam \<mapsto> bumpStats stats swung swingingStrike inPl isHit hard))\<rparr>
          in case zoneForThisPitch of
               None \<Rightarrow> st2
             | Some z \<Rightarrow>
                 let st3 = ensureBatterZoneFamily batterId z fam st2;
                     Z = orDefault (batterVsZoneStats st3 batterId z fam) zeroStats
                 in st3\<lparr>batterVsZoneStats :=
                          (batterVsZoneStats st3)(batterId :=
                            (batterVsZoneStats st3 batterId)(z :=
                              (batterVsZoneStats st3 batterId z)(fam \<mapsto>
                                 bumpStats Z swung swingingStrike inPl isHit hard)))\<rparr>)"

text \<open>
  \<open>getBatterVsPitchProfile\<close>. The loop over the three families computes the score of each
  (\<open>vuln[fam] = score\<close>, for every family), tracks the best score among the families with
  \<open>seen >= 3\<close> (\<open>bestScore\<close> starts at \<open>-Infinity\<close>, here \<open>None\<close>), and writes the three
  rates back on the stored bucket.
\<close>

definition statsOf :: "(family \<Rightarrow> famStats option) \<Rightarrow> family \<Rightarrow> famStats" where
  "statsOf rw fam = orDefault (rw fam) zeroStats"

definition withRates :: "famStats \<Rightarrow> famStats" where
  "withRates s =
     s\<lparr>whiffRate := Some (rate (whiffs s) (swings s)),
       hitRate := Some (rate (hits s) (inPlay s)),
       hardHitRate := Some (rate (hardHit s) (inPlay s))\<rparr>"

fun topWeakLoop ::
  "(family \<Rightarrow> famStats option) \<Rightarrow> family list \<Rightarrow> (family \<times> real) option
     \<Rightarrow> (family \<times> real) option" where
  "topWeakLoop rw [] best = best"
| "topWeakLoop rw (fam # fams) best =
     (let s = statsOf rw fam; score = weightedScore s in
      if seen s \<ge> 3 \<and> (case best of None \<Rightarrow> True | Some (_, bestScore) \<Rightarrow> score > bestScore)
      then topWeakLoop rw fams (Some (fam, score))
      else topWeakLoop rw fams best)"

definition families :: "family list" where
  "families = [Fastball, Breaking, Change]"

definition getBatterVsPitchProfile :: "nat \<Rightarrow> store \<Rightarrow> profile option \<times> store" where
  "getBatterVsPitchProfile batterId st =
     (case batterVsPitchStats st batterId of
        None \<Rightarrow> (None, st)
      | Some rw \<Rightarrow>
          let rw1 = (\<lambda>fam. map_option withRates (rw fam)) in
          (Some \<lparr>raw = rw1,
                 vuln = \<lparr>fastball = weightedScore (statsOf rw Fastball),
                         breaking = weightedScore (statsOf rw Breaking),
                         change = weightedScore (statsOf rw Change)\<rparr>,
                 topWeakFamily = map_option fst (topWeakLoop rw families None)\<rparr>,
           st\<lparr>batterVsPitchStats := (batterVsPitchStats st)(batterId \<mapsto> rw1)\<rparr>))"

section \<open>The prediction context\<close>

text \<open>The object built by \<open>buildReplayPitchContext\<close> (its display label
  \<open>lastPitchLocationLabel\<close> is left out).\<close>

record ctx = tempCtx +
  inning :: nat
  topBottom :: string
  balls :: nat
  strikes :: nat
  outs :: nat
  runnersOn_first :: bool
  runnersOn_second :: bool
  runnersOn_third :: bool
  lastPitchDescription :: string
  lastTwoPitchTypes :: "string list"
  lastPitchLocationZone :: "zone option"
  pitcherThrows :: string
  batterBats :: string
  pitcherGameMix :: "mix option"
  batterAggression :: "real option"
  pitcherArsenalMix :: "mix option"
  batterVsPitch :: "profile option"
  pitcherId :: nat
  batterId :: nat
  tunnelInfo :: "tunnel option"

section \<open>The optimal pitch recommender\<close>

definition getCountFactor :: "family \<Rightarrow> nat \<Rightarrow> nat \<Rightarrow> real" where
  "getCountFactor fam b s =
     (if s \<ge> 2 \<and> b \<le> 1 then
        (if fam = Breaking then 1.25 else if fam = Change then 1.15 else 0.8)
      else if b \<ge> 2 \<and> s \<le> 1 then
        (if fam = Fastball then 1.2 else 0.9)
      else if b = 3 \<and> s = 2 then
        (if fam = Fastball then 1.05 else if fam = Breaking then 0.95 else 1.0)
      else 1.0)"

definition defaultMix :: mix where
  "defaultMix = \<lparr>fastball = 0.6, breaking = 0.25, change = 0.15\<rparr>"

record optimal =
  opt_mix :: mix
  best :: family

text \<open>The loop that picks the best family: it starts from \<open>fastball\<close> and replaces the
  choice only on a strictly larger share.\<close>

fun pickBest :: "mix \<Rightarrow> family list \<Rightarrow> family \<times> real \<Rightarrow> family \<times> real" where
  "pickBest m [] acc = acc"
| "pickBest m (fam # fams) (b, bestVal) =
     (if share m fam > bestVal then pickBest m fams (fam, share m fam)
      else pickBest m fams (b, bestVal))"

text \<open>The score of one family inside the loop of \<open>recommendOptimalPitch\<close>.\<close>

definition familyScore :: "store \<Rightarrow> ctx \<Rightarrow> mix \<Rightarrow> family \<Rightarrow> real" where
  "familyScore st c base fam =
     (let score0 = share base fam;
          score1 = (case batterVsPitch c of
                      Some p \<Rightarrow> 0.4 * score0 + 0.6 * share (vuln p) fam
                    | None \<Rightarrow> score0);
          cf = getCountFactor fam (balls c) (strikes c);
          score2 = score1 * cf
      in case lastPitchLocationZone c of
           None \<Rightarrow> score2
         | Some z \<Rightarrow>
             if batterId c = 0 then score2
             else (case getBatterZoneEV st (batterId c) z fam of
                     Some zoneEV \<Rightarrow> 0.5 * score2 + 0.5 * zoneEV
                   | None \<Rightarrow> score2))"

text \<open>The three scores of \<open>recommendOptimalPitch\<close> before its \<open>normalize\<close>. The base
  object always carries the three shares, so the fallback \<open>base[fam] ?? 1 / 3\<close> is not
  taken.\<close>

definition optimalScores :: "ctx \<Rightarrow> store \<Rightarrow> mix" where
  "optimalScores c st =
     (let base0 = (case pitcherArsenalMix c of
                     Some a \<Rightarrow> a
                   | None \<Rightarrow> orDefault (leaguePitchMixByCount (balls c, strikes c)) defaultMix);
          base = normalize_mix base0
      in \<lparr>fastball = familyScore st c base Fastball,
          breaking = familyScore st c base Breaking,
          change = familyScore st c base Change\<rparr>)"

text \<open>
  \<open>recommendOptimalPitch(ctx)\<close> reads \<open>ctx.pitcherArsenalMix\<close> first, with no test of
  \<open>ctx\<close>: on \<open>null\<close> that read throws a \<open>TypeError\<close>. The function assigns to no module
  state, so the model takes the state and returns the result only.
\<close>

definition recommendOptimalPitch :: "ctx option \<Rightarrow> store \<Rightarrow> error + optimal" where
  "recommendOptimalPitch cx st =
     (case cx of
        None \<Rightarrow> Inl TypeError
      | Some c \<Rightarrow>
          let m = normalize_mix (optimalScores c st)
          in Inr \<lparr>opt_mix = m, best = fst (pickBest m families (Fastball, fastball m))\<rparr>)"

section \<open>The prediction mixer\<close>

text \<open>\<open>adjust m df db dc\<close> adds the three deltas to the three shares.\<close>

definition adjust :: "mix \<Rightarrow> real \<Rightarrow> real \<Rightarrow> real \<Rightarrow> mix" where
  "adjust m df db dc =
     \<lparr>fastball = fastball m + df, breaking = breaking m + db, change = change m + dc\<rparr>"

definition lastFamily :: "'a tempCtx_scheme \<Rightarrow> family option" where
  "lastFamily c =
     (case lastPitchType c of
        None \<Rightarrow> None
      | Some t \<Rightarrow> if t = [] then None else mapPitchCodeToBucket (Some t))"

text \<open>\<open>applySequencingAdjustments(mix, ctx)\<close> for a present context.\<close>

definition applySequencingAdjustments :: "store \<Rightarrow> mix \<Rightarrow> ctx \<Rightarrow> mix" where
  "applySequencingAdjustments st m0 c =
     (let lastFam = lastFamily c;
          desc = toLowerCase (lastPitchDescription c);
          b = balls c; s = strikes c;
          m1 = (if (b = 0 \<and> s = 2) \<or> (b = 1 \<and> s = 2) then adjust m0 (- 0.1) 0.12 0.05 else m0);
          m2 = (if (b = 2 \<and> s = 0) \<or> (b = 3 \<and> s = 1) then adjust m1 0.1 (- 0.06) (- 0.04) else m1);
          m3 = (case pitcherArsenalMix c of
                  Some a \<Rightarrow>
                    if b = 3 \<and> s = 2
                    then adjust m2 (fastball a * 0.1) (breaking a * 0.05) (change a * 0.05)
                    else m2
                | None \<Rightarrow> m2);
          m4 = (if lastFam = Some Fastball then adjust m3 (- 0.06) 0.06 0.02 else m3);
          m5 = (if lastFam = Some Breaking then adjust m4 0.04 (- 0.04) 0.03 else m4);
          m6 = (if lastFam = Some Change then adjust m5 0.02 0.04 (- 0.06) else m5);
          m7 = (if str_includes desc ''swinging strike'' \<and> \<not> str_includes desc ''foul'' then
                  (case lastFam of
                     Some Fastball \<Rightarrow> adjust m6 0.1 0 0
                   | Some Breaking \<Rightarrow> adjust m6 0 0.1 0
                   | Some Change \<Rightarrow> adjust m6 0 0 0.1
                   | None \<Rightarrow> m6)
                else m6);
          m8 = (if str_includes desc ''foul'' then
                  (if lastFam = Some Fastball then adjust m7 0 0.05 0.03 else adjust m7 0.07 0 0)
                else m7);
          m9 = (if str_includes desc ''ball'' then adjust m8 0.06 (- 0.03) (- 0.03) else m8);
          m10 = (if str_includes desc ''called strike'' then adjust m9 0 0.04 0 else m9);
          seq = map (\<lambda>t. mapPitchCodeToBucket (Some t)) (lastTwoPitchTypes c);
          m11 = (if length seq = 2 \<and> seq ! 0 = seq ! 1 then
                   (case seq ! 0 of
                      Some Fastball \<Rightarrow> adjust m10 0 0.1 0
                    | Some Breaking \<Rightarrow> adjust m10 0.08 0 0
                    | Some Change \<Rightarrow> adjust m10 0 0.07 0
                    | None \<Rightarrow> m10)
                 else m10);
          m12 = (if tunnelInfo c \<noteq> None \<and> lastFam = Some Fastball
                 then adjust m11 0 0.05 0.03 else m11);
          wildness = getPitcherWildness st (pitcherId c);
          m13 = (if wildness > 0.3 then adjust m12 0.08 (- 0.05) (- 0.03) else m12);
          veloTrend = getPitcherVeloTrend st (pitcherId c);
          m14 = (if veloTrend < - 1.0 then adjust m13 (- 0.04) 0.01 0.03 else m13)
      in normalize_mix m14)"

text \<open>\<open>applyLocationSequencing(mix, ctx)\<close> for a present context;
  \<open>zone.startsWith("HIGH")\<close> is the test that the height part is \<open>HIGH\<close>.\<close>

definition applyLocationSequencing :: "mix \<Rightarrow> ctx \<Rightarrow> mix" where
  "applyLocationSequencing m0 c =
     (case (lastPitchLocationZone c, lastFamily c) of
        (Some z, Some lastFam) \<Rightarrow>
          let m1 = (if lastFam = Fastball \<and> fst z = HIGH then adjust m0 (- 0.08) 0.08 0.04 else m0);
              m2 = (if lastFam = Breaking \<and> z = (LOW, GLOVE) then adjust m1 0.1 (- 0.05) 0 else m1);
              m3 = (if lastFam = Change \<and> z = (LOW, ARM) then adjust m2 0.02 0.08 (- 0.06) else m2);
              m4 = (if lastFam = Fastball \<and> z = (MID, MIDDLE) then adjust m3 (- 0.1) 0.08 0.04 else m3)
          in normalize_mix m4
      | _ \<Rightarrow> m0)"

definition nullCtxMix :: mix where
  "nullCtxMix = \<lparr>fastball = 0.33, breaking = 0.33, change = 0.34\<rparr>"

text \<open>The shares of \<open>predictPitchType\<close> just before its final \<open>normalize\<close>.\<close>

definition preFinalMix :: "ctx \<Rightarrow> store \<Rightarrow> mix" where
  "preFinalMix c st =
     (let mix0 = orDefault (leaguePitchMixByCount (balls c, strikes c))
                   \<lparr>fastball = 0.60, breaking = 0.25, change = 0.15\<rparr>;
          mix1 = (case pitcherArsenalMix c of
                    Some a \<Rightarrow>
                      \<lparr>fastball = 0.5 * fastball mix0 + 0.5 * fastball a,
                       breaking = 0.5 * breaking mix0 + 0.5 * breaking a,
                       change = 0.5 * change mix0 + 0.5 * change a\<rparr>
                  | None \<Rightarrow> mix0);
          mix2 = (if pitcherThrows c = ''R'' \<and> batterBats c = ''L''
                  then adjust mix1 (- 0.03) (- 0.02) 0.05 else mix1);
          mix3 = (if pitcherThrows c = ''L'' \<and> batterBats c = ''R''
                  then adjust mix2 (- 0.03) 0.05 (- 0.02) else mix2);
          mix4 = (if runnersOn_first c \<or> runnersOn_second c \<or> runnersOn_third c
                  then adjust mix3 (- 0.03) 0.03 0 else mix3);
          mix5 = normalize_mix mix4;
          mix6 = applySequencingAdjustments st mix5 c;
          mix7 = applyLocationSequencing mix6 c;
          mix8 = normalize_mix mix7;
          mix9 = (case batterVsPitch c of
                    Some p \<Rightarrow>
                      let v = vuln p in
                      \<lparr>fastball = fastball mix8 * (1 + fastball v * 0.35),
                       breaking = breaking mix8 * (1 + breaking v * 0.35),
                       change = change mix8 * (1 + change v * 0.35)\<rparr>
                  | None \<Rightarrow> mix8);
          mix10 = (if tunnelInfo c \<noteq> None then
                     (case lastFamily c of
                        Some Fastball \<Rightarrow> adjust mix9 0 0.05 0
                      | Some Breaking \<Rightarrow> adjust mix9 0.05 0 0
                      | Some Change \<Rightarrow> adjust mix9 0 0.02 0.04
                      | None \<Rightarrow> mix9)
                   else mix9);
          mix11 = (case pitcherGameMix c of
                     Some gm \<Rightarrow>
                       \<lparr>fastball = 0.8 * fastball mix10 + 0.2 * fastball gm,
                        breaking = 0.8 * breaking mix10 + 0.2 * breaking gm,
                        change = 0.8 * change mix10 + 0.2 * change gm\<rparr>
                   | None \<Rightarrow> mix10)
      in mix11)"

definition predictPitchType :: "ctx option \<Rightarrow> store \<Rightarrow> mix" where
  "predictPitchType cx st =
     (case cx of
        None \<Rightarrow> nullCtxMix
      | Some c \<Rightarrow> normalize_mix (preFinalMix c st))"

section \<open>Context assembly\<close>

definition runnerOn :: "play \<Rightarrow> nat \<Rightarrow> bool" where
  "runnerOn pl base = (case runners pl of Some rs \<Rightarrow> base \<in> set rs | None \<Rightarrow> False)"

text \<open>\<open>xs.slice(-2)\<close>.\<close>

definition lastTwo :: "'a list \<Rightarrow> 'a list" where
  "lastTwo xs = drop (length xs - 2) xs"

text \<open>
  \<open>buildReplayPitchContext\<close>: the body runs inside \<open>try\<close>, and any throw gives \<open>null\<close>. A
  play index out of range throws at \<open>play.playEvents\<close>, before any write. A pitch index
  out of range throws at \<open>pitch.details\<close>, after \<open>getBatterVsPitchProfile\<close> has written
  its rates and before \<open>lastCtx\<close> is assigned.
\<close>

definition buildReplayPitchContext ::
  "game \<Rightarrow> nat \<Rightarrow> nat \<Rightarrow> nat \<Rightarrow> store \<Rightarrow> ctx option \<times> store" where
  "buildReplayPitchContext g playIdx pitchIdx outsBefore st =
     (case at_index g playIdx of
        None \<Rightarrow> (None, st)
      | Some pl \<Rightarrow>
        (case at_index (playEvents pl) pitchIdx of
           None \<Rightarrow> (None, snd (getBatterVsPitchProfile (batter_id pl) st))
         | Some p \<Rightarrow>
           (case getPitchCoordinates g playIdx pitchIdx (pitchCoordCache st) of
              Inl e \<Rightarrow> (None, st)
            | Inr (loc, cache1) \<Rightarrow>
                let st1 = st\<lparr>pitchCoordCache := cache1\<rparr>;
                    pid = pitcher_id pl;
                    bid = batter_id pl;
                    gameMix = getPitcherGameMix st1 pid;
                    aggr = getBatterAggression st1 bid;
                    arsenal = getPitcherArsenalMix st1 pid;
                    (bvp, st2) = getBatterVsPitchProfile bid st1;
                    z = (if hasLocation loc \<and> px loc \<noteq> None \<and> pz loc \<noteq> None
                         then classifyLocation (px loc) (pz loc) (szTop loc) (szBot loc)
                         else None);
                    prev = lastCtx st2;
                    tmp = \<lparr>lastPitchType = code_of p, location = Some loc\<rparr>;
                    tun = detectTunnel prev (Some tmp);
                    st3 = st2\<lparr>lastCtx := Some tmp\<rparr>
                in (Some \<lparr>lastPitchType = code_of p, location = Some loc,
                          inning = about_inning pl,
                          topBottom = (if about_halfInning pl = ''top'' then ''Top'' else ''Bottom''),
                          balls = orDefault (count_balls p) 0,
                          strikes = orDefault (count_strikes p) 0,
                          outs = outsBefore,
                          runnersOn_first = runnerOn pl 1,
                          runnersOn_second = runnerOn pl 2,
                          runnersOn_third = runnerOn pl 3,
                          lastPitchDescription = orDefault (description_of p) [],
                          lastTwoPitchTypes = lastTwo (pitchSequence st3),
                          lastPitchLocationZone = z,
                          pitcherThrows = orDefault (pitchHand pl) ''R'',
                          batterBats = orDefault (batSide pl) ''R'',
                          pitcherGameMix = gameMix,
                          batterAggression = aggr,
                          pitcherArsenalMix = arsenal,
                          batterVsPitch = bvp,
                          pitcherId = pid,
                          batterId = bid,
                          tunnelInfo = tun\<rparr>, st3))))"

section \<open>The replay loop\<close>

definition analyzeSequence :: "string \<Rightarrow> store \<Rightarrow> store" where
  "analyzeSequence newType st = st\<lparr>pitchSequence := pitchSequence st @ [newType]\<rparr>"

definition detectChanges :: "play \<Rightarrow> store \<Rightarrow> store" where
  "detectChanges pl st =
     (let st1 = (if lastPitcherId st \<noteq> Some (pitcher_id pl)
                 then st\<lparr>lastPitcherId := Some (pitcher_id pl), pitchSequence := [],
                        lastCtx := None\<rparr>
                 else st)
      in if lastBatterId st1 \<noteq> Some (batter_id pl)
         then st1\<lparr>lastBatterId := Some (batter_id pl)\<rparr> else st1)"

text \<open>\<open>buildPitchIndexMap\<close>: the (play index, event index) pairs of the pitch events, in
  feed order.\<close>

definition buildPitchIndexMap :: "game \<Rightarrow> (nat \<times> nat) list" where
  "buildPitchIndexMap g =
     concat (map (\<lambda>(pIdx, pl).
                    map (\<lambda>(eIdx, ev). (pIdx, eIdx))
                      (filter (\<lambda>(eIdx, ev). isPitch ev) (enumerate 0 (playEvents pl))))
               (enumerate 0 g))"

definition outsFromPlay :: "play \<Rightarrow> nat" where
  "outsFromPlay pl =
     (let ev = toLowerCase (orDefault (event pl) []) in
      if str_includes ev ''triple play'' then 3
      else if str_includes ev ''double play'' then 2
      else if str_includes ev ''groundout'' then 1
      else if str_includes ev ''forceout'' then 1
      else if str_includes ev ''fielder's choice out'' then 1
      else if str_includes ev ''fielders choice out'' then 1
      else if str_includes ev ''flyout'' then 1
      else if str_includes ev ''lineout'' then 1
      else if str_includes ev ''pop out'' then 1
      else if str_includes ev ''strikeout'' then 1
      else 0)"

text \<open>The reset that the first call of \<open>handleReplayMode\<close> performs.\<close>

definition startReplay :: "game \<Rightarrow> store \<Rightarrow> store" where
  "startReplay g st =
     st\<lparr>replayModeActive := True, pitchIndexMap := buildPitchIndexMap g,
        simulatedOuts := 0, simInning := None, simHalf := None,
        pitchCoordCache := (\<lambda>k. None), pitcherGameStats := (\<lambda>k. None),
        batterAggressionStats := (\<lambda>k. None), batterVsPitchStats := (\<lambda>k. None),
        batterVsZoneStats := (\<lambda>b z f. None), pitcherCommandStats := (\<lambda>k. None),
        pitchSequence := [], lastCtx := None\<rparr>"

text \<open>\<open>zoneForThisPitch\<close>: the zone of the context's location, when it is a true
  location.\<close>

definition zoneForThisPitch :: "ctx option \<Rightarrow> zone option" where
  "zoneForThisPitch cx =
     (case Option.bind cx location of
        Some l \<Rightarrow> if hasLocation l
                  then classifyLocation (px l) (pz l) (szTop l) (szBot l) else None
      | None \<Rightarrow> None)"

text \<open>The four profile updates at the end of a step, in the order of the source.\<close>

definition applyUpdates :: "play \<Rightarrow> pitch \<Rightarrow> bool \<Rightarrow> ctx option \<Rightarrow> store \<Rightarrow> store" where
  "applyUpdates pl p isLastPitch cx st =
     (let bucket = mapPitchCodeToBucket (code_of p);
          st1 = updatePitcherStats pl p st;
          st2 = updateBatterStats pl p st1;
          st3 = updatePitcherCommand pl p (Option.bind cx location) st2
      in updateBatterVsPitchStats pl p bucket isLastPitch (zoneForThisPitch cx) st3)"

record stepOutput =
  out_ctx :: "ctx option"
  likelyMix :: mix
  optimalPitch :: optimal

text \<open>The start of a step for the pitch \<open>p\<close> of the play \<open>pl\<close>: the outs are reset on a new
  half inning, and a non-empty pitch code is pushed on \<open>pitchSequence\<close>.\<close>

definition beforeContext :: "play \<Rightarrow> pitch \<Rightarrow> store \<Rightarrow> store" where
  "beforeContext pl p st0 =
     (let st1 = (if simInning st0 \<noteq> Some (about_inning pl)
                    \<or> simHalf st0 \<noteq> Some (about_halfInning pl)
                 then st0\<lparr>simInning := Some (about_inning pl),
                         simHalf := Some (about_halfInning pl), simulatedOuts := 0\<rparr>
                 else st0)
      in case code_of p of
           Some code \<Rightarrow> if code = [] then st1 else analyzeSequence code st1
         | None \<Rightarrow> st1)"

definition isLastPitchOf :: "play \<Rightarrow> nat \<Rightarrow> bool" where
  "isLastPitchOf pl pitchIdx = (\<not> list_ex isPitch (drop (pitchIdx + 1) (playEvents pl)))"

text \<open>The rest of the step: context, prediction, recommendation, then the change
  detector, the four updates, the outs and the pointer. A throw of
  \<open>recommendOptimalPitch\<close> ends the call before any of them.\<close>

definition processPitch ::
  "game \<Rightarrow> nat \<Rightarrow> nat \<Rightarrow> play \<Rightarrow> pitch \<Rightarrow> store \<Rightarrow> error + (stepOutput \<times> store)" where
  "processPitch g playIdx pitchIdx pl p st0 =
     (let st2 = beforeContext pl p st0;
          outsBefore = simulatedOuts st2;
          isLastPitch = isLastPitchOf pl pitchIdx;
          (cx, st3) = buildReplayPitchContext g playIdx pitchIdx outsBefore st2;
          likely = predictPitchType cx st3
      in case recommendOptimalPitch cx st3 of
           Inl e \<Rightarrow> Inl e
         | Inr opt \<Rightarrow>
             let st4 = detectChanges pl st3;
                 st5 = applyUpdates pl p isLastPitch cx st4;
                 st6 = (if isLastPitch then
                          let n = simulatedOuts st5 + outsFromPlay pl in
                          st5\<lparr>simulatedOuts := (if n \<ge> 3 then 0 else n)\<rparr>
                        else st5)
             in Inr (\<lparr>out_ctx = cx, likelyMix = likely, optimalPitch = opt\<rparr>,
                     st6\<lparr>pitchPointer := pitchPointer st6 + 1\<rparr>))"

text \<open>
  One call of \<open>handleReplayMode\<close> on the game \<open>lastGameData\<close>; \<open>replayState\<close> is the
  state after the reset of the first call. Console output is not modelled. The result is
  an error when the call throws, \<open>None\<close> with the state when all pitches have been
  replayed, and otherwise the step's outputs with the new state.
\<close>

definition replayState :: "game \<Rightarrow> store \<Rightarrow> store" where
  "replayState g st = (if \<not> replayModeActive st then startReplay g st else st)"

definition handleReplayMode :: "game \<Rightarrow> store \<Rightarrow> error + (stepOutput option \<times> store)" where
  "handleReplayMode g st =
     (let st0 = replayState g st in
      if pitchPointer st0 \<ge> length (pitchIndexMap st0) then Inr (None, st0)
      else
        let (playIdx, pitchIdx) = pitchIndexMap st0 ! pitchPointer st0 in
        case at_index g playIdx of
          None \<Rightarrow> Inl TypeError
        | Some pl \<Rightarrow>
          (case at_index (playEvents pl) pitchIdx of
             None \<Rightarrow> Inl TypeError
           | Some p \<Rightarrow>
               (case processPitch g playIdx pitchIdx pl p st0 of
                  Inl e \<Rightarrow> Inl e
                | Inr (out, st1) \<Rightarrow> Inr (Some out, st1))))"

section \<open>Notions used in the statements\<close>

subsection \<open>Batter vulnerability\<close>


subsection \<open>Reachable command states\<close>

text \<open>A sequence of calls of \<open>updatePitcherCommand\<close>, the only writer of
  \<open>pitcherCommandStats\<close> besides the reset.\<close>

fun runCommands :: "(play \<times> pitch \<times> coord option) list \<Rightarrow> store \<Rightarrow> store" where
  "runCommands [] st = st"
| "runCommands ((pl, p, loc) # calls) st = runCommands calls (updatePitcherCommand pl p loc st)"

text \<open>The strike zone of a location is ordered when its top is not below its bottom.\<close>

definition zoneOrdered :: "coord option \<Rightarrow> bool" where
  "zoneOrdered loc =
     (case loc of
        None \<Rightarrow> True
      | Some l \<Rightarrow> (case (szTop l, szBot l) of (Some t, Some b) \<Rightarrow> b \<le> t | _ \<Rightarrow> True))"

text \<open>The sum of the four miss counters.\<close>

definition misses :: "command \<Rightarrow> nat" where
  "misses cs = missesHigh cs + missesLow cs + missesArm cs + missesGlove cs"

text \<open>The two invariants of a command record: at most one miss per pitch on each axis,
  and, without an ordered zone, at most one per pitch in each of high, low and side.\<close>

definition inv2 :: "command \<Rightarrow> bool" where
  "inv2 cs = (missesHigh cs + missesLow cs \<le> pitches cs
              \<and> missesArm cs + missesGlove cs \<le> pitches cs)"

definition inv3 :: "command \<Rightarrow> bool" where
  "inv3 cs = (missesHigh cs \<le> pitches cs \<and> missesLow cs \<le> pitches cs
              \<and> missesArm cs + missesGlove cs \<le> pitches cs)"

subsection \<open>Sequences of coordinate lookups\<close>



subsection \<open>Views of the profile stores\<close>

text \<open>A family bucket without the attached rates, and the counters of the
  batter-vs-family store.\<close>

definition stripRates :: "famStats \<Rightarrow> famStats" where
  "stripRates s = s\<lparr>whiffRate := None, hitRate := None, hardHitRate := None\<rparr>"

definition familyCounters :: "store \<Rightarrow> nat \<Rightarrow> family \<Rightarrow> famStats option" where
  "familyCounters st b fam =
     map_option stripRates (Option.bind (batterVsPitchStats st b) (\<lambda>e. e fam))"

text \<open>Two states hold the same profile stores; two states hold the same profile
  counters (the same stores up to the attached rates).\<close>

definition sameProfiles :: "store \<Rightarrow> store \<Rightarrow> bool" where
  "sameProfiles a b =
     (pitcherGameStats a = pitcherGameStats b
      \<and> batterAggressionStats a = batterAggressionStats b
      \<and> batterVsPitchStats a = batterVsPitchStats b
      \<and> batterVsZoneStats a = batterVsZoneStats b
      \<and> pitcherCommandStats a = pitcherCommandStats b)"

definition sameCounters :: "store \<Rightarrow> store \<Rightarrow> bool" where
  "sameCounters a b =
     (pitcherGameStats a = pitcherGameStats b
      \<and> batterAggressionStats a = batterAggressionStats b
      \<and> familyCounters a = familyCounters b
      \<and> batterVsZoneStats a = batterVsZoneStats b
      \<and> pitcherCommandStats a = pitcherCommandStats b)"

text \<open>The pitch totals of the four profile stores: pitches seen by a batter, pitches
  thrown by a pitcher (command store), pitches counted in a pitcher's usage, pitches
  of a family seen by a batter, and pitches of a family seen by a batter in a zone.\<close>

definition pitchesSeen :: "store \<Rightarrow> nat \<Rightarrow> nat" where
  "pitchesSeen st b = (case batterAggressionStats st b of None \<Rightarrow> 0 | Some a \<Rightarrow> ag_pitches a)"

definition pitchesThrown :: "store \<Rightarrow> nat \<Rightarrow> nat" where
  "pitchesThrown st pid = (case pitcherCommandStats st pid of None \<Rightarrow> 0 | Some cs \<Rightarrow> pitches cs)"

definition usageTotal :: "store \<Rightarrow> nat \<Rightarrow> nat" where
  "usageTotal st pid = (case pitcherGameStats st pid of None \<Rightarrow> 0 | Some gs \<Rightarrow> n_total gs)"

definition familySeen :: "store \<Rightarrow> nat \<Rightarrow> family \<Rightarrow> nat" where
  "familySeen st b fam = (case familyCounters st b fam of None \<Rightarrow> 0 | Some s \<Rightarrow> seen s)"

definition zoneSeen :: "store \<Rightarrow> nat \<Rightarrow> zone \<Rightarrow> family \<Rightarrow> nat" where
  "zoneSeen st b z fam = (case batterVsZoneStats st b z fam of None \<Rightarrow> 0 | Some s \<Rightarrow> seen s)"

section \<open>Initial state and sample inputs\<close>

text \<open>The module state at start-up: every store empty.\<close>

definition emptyStore :: store where
  "emptyStore =
     \<lparr>pitchCoordCache = (\<lambda>k. None), pitcherGameStats = (\<lambda>k. None),
      batterAggressionStats = (\<lambda>k. None), pitcherArsenalById = (\<lambda>k. None),
      batterVsPitchStats = (\<lambda>k. None), batterVsZoneStats = (\<lambda>b z f. None),
      pitcherCommandStats = (\<lambda>k. None), pitchSequence = [], lastCtx = None,
      lastPitcherId = None, lastBatterId = None, simulatedOuts = 0, simInning = None,
      simHalf = None, replayModeActive = False, pitchPointer = 0, pitchIndexMap = []\<rparr>"


text \<open>A pitch event with the given code, description, in-play flag and exit speed, and no
  coordinates; a play of pitcher 1 against batter 2 with the given outcome and events.\<close>

definition samplePitch :: "string \<Rightarrow> string \<Rightarrow> bool \<Rightarrow> real option \<Rightarrow> pitch" where
  "samplePitch code desc inPl ls =
     \<lparr>pitchNumber = Some 1,
      details = Some \<lparr>d_coordinates = None, description = Some desc, isInPlay = inPl,
                      type_code = Some code, d_startSpeed = None, d_pitchNumber = None\<rparr>,
      pitchData = None, breaks = None, isPitch = True,
      count_balls = Some 0, count_strikes = Some 0, launchSpeed = ls\<rparr>"

definition samplePlay :: "string \<Rightarrow> pitch list \<Rightarrow> play" where
  "samplePlay evType evs =
     \<lparr>about_atBatIndex = Some 0, about_inning = 1, about_halfInning = ''top'',
      playEvents = evs, pitcher_id = 1, batter_id = 2, pitchHand = Some ''R'',
      batSide = Some ''R'', runners = None, eventType = Some evType, event = None\<rparr>"


text \<open>A ground ball into a double play: the last pitch of the at-bat, a sinker put in play
  at 88 mph, and the play whose outcome category is \<open>grounded_into_double_play\<close>.\<close>

definition dpPitch :: pitch where
  "dpPitch = samplePitch ''SI'' ''In play, out(s)'' True (Some 88)"

definition dpPlay :: play where
  "dpPlay = samplePlay ''grounded_into_double_play'' [dpPitch]"

text \<open>A one-pitch game, the double play above; and a one-pitch game whose only pitch
  event carries no pitch type code (an automatic ball).\<close>

definition dpGame :: game where
  "dpGame = [dpPlay]"

definition codelessPitch :: pitch where
  "codelessPitch =
     \<lparr>pitchNumber = Some 1,
      details = Some \<lparr>d_coordinates = None, description = Some ''Automatic Ball'',
                      isInPlay = False, type_code = None, d_startSpeed = None,
                      d_pitchNumber = None\<rparr>,
      pitchData = None, breaks = None, isPitch = True,
      count_balls = Some 0, count_strikes = Some 0, launchSpeed = None\<rparr>"

definition codelessGame :: game where
  "codelessGame = [samplePlay ''walk'' [codelessPitch]]"

text \<open>A location high and to the arm side of the default zone, and a location between the
  bounds of a zone whose top (1.0) is below its bottom (3.0).\<close>

definition wildLocation :: coord where
  "wildLocation = noLocation\<lparr>hasLocation := True, px := Some 2, pz := Some 5,
     szTop := Some 3.5, szBot := Some 1.5\<rparr>"

definition invertedLocation :: coord where
  "invertedLocation = noLocation\<lparr>hasLocation := True, px := Some 0, pz := Some 2,
     szTop := Some 1, szBot := Some 3\<rparr>"



section \<open>The classifier\<close>

lemma toUpperCase_nonempty: "toUpperCase s \<noteq> [] \<Longrightarrow> s \<noteq> []"
  by (auto simp: toUpperCase_def)

text \<open>
  Claim C6, as amended. \<open>mapPitchCodeToBucket\<close> is a function of its argument alone (the
  definition reads no state). It returns a family for every non-empty code and \<open>null\<close> for
  an absent or empty one. A code is classified by its upper-case form: \<open>FT\<close> as \<open>SI\<close>,
  \<open>KC\<close> as \<open>SW\<close>, the codes of the fastball list as fastball, of the splitter and change
  lists as change, of the breaking list as breaking, and every other non-empty code as
  fastball.
\<close>

theorem mapPitchCodeToBucket_classifies:
  "(\<forall>s. s \<noteq> [] \<longrightarrow> (\<exists>fam. mapPitchCodeToBucket (Some s) = Some fam))
   \<and> mapPitchCodeToBucket None = None
   \<and> mapPitchCodeToBucket (Some []) = None
   \<and> (\<forall>s. toUpperCase s = ''FT'' \<longrightarrow>
          mapPitchCodeToBucket (Some s) = mapPitchCodeToBucket (Some ''SI''))
   \<and> mapPitchCodeToBucket (Some ''KC'') = mapPitchCodeToBucket (Some ''SW'')
   \<and> (\<forall>s. toUpperCase s \<in> set fastball_codes \<longrightarrow> mapPitchCodeToBucket (Some s) = Some Fastball)
   \<and> (\<forall>s. toUpperCase s \<in> set (splitter_codes @ change_codes) \<longrightarrow>
          mapPitchCodeToBucket (Some s) = Some Change)
   \<and> (\<forall>s. toUpperCase s \<in> set breaking_codes \<longrightarrow> mapPitchCodeToBucket (Some s) = Some Breaking)
   \<and> (\<forall>s. s \<noteq> [] \<longrightarrow> toUpperCase s \<notin> set known_codes \<longrightarrow>
          mapPitchCodeToBucket (Some s) = Some Fastball)"
proof -
  have up: "toUpperCase ''SI'' = ''SI''" "toUpperCase ''KC'' = ''KC''"
    "toUpperCase ''SW'' = ''SW''"
    by code_simp+
  note lists = fastball_codes_def splitter_codes_def change_codes_def breaking_codes_def
  show ?thesis
    apply (intro conjI allI impI)
    subgoal by (simp add: mapPitchCodeToBucket_def Let_def)
    subgoal by (simp add: mapPitchCodeToBucket_def)
    subgoal by (simp add: mapPitchCodeToBucket_def)
    subgoal for s
      using toUpperCase_nonempty[of s]
      by (simp add: mapPitchCodeToBucket_def Let_def up fastball_codes_def)
    subgoal by (simp add: mapPitchCodeToBucket_def Let_def up lists)
    subgoal for s
      using toUpperCase_nonempty[of s]
      by (auto simp add: mapPitchCodeToBucket_def Let_def fastball_codes_def)
    subgoal for s
      using toUpperCase_nonempty[of s]
      by (auto simp add: mapPitchCodeToBucket_def Let_def fastball_codes_def
          splitter_codes_def change_codes_def)
    subgoal for s
      using toUpperCase_nonempty[of s]
      by (auto simp add: mapPitchCodeToBucket_def Let_def lists)
    subgoal for s
      by (auto simp add: mapPitchCodeToBucket_def Let_def known_codes_def lists)
    done
qed

theorem mapPitchCodeToBucket_classifies_witness:
  "mapPitchCodeToBucket (Some ''ft'') = Some Fastball
   \<and> mapPitchCodeToBucket (Some ''fs'') = Some Change
   \<and> mapPitchCodeToBucket (Some ''kc'') = Some Breaking
   \<and> ''XX'' \<noteq> [] \<and> toUpperCase ''XX'' \<notin> set known_codes
   \<and> mapPitchCodeToBucket (Some ''XX'') = Some Fastball"
proof -
  have a: "toUpperCase ''ft'' \<in> set fastball_codes" by code_simp
  have b: "toUpperCase ''fs'' \<in> set (splitter_codes @ change_codes)" by code_simp
  have c: "toUpperCase ''kc'' \<in> set breaking_codes" by code_simp
  have d: "''XX'' \<noteq> []" by simp
  have e: "toUpperCase ''XX'' \<notin> set known_codes" by code_simp
  from mapPitchCodeToBucket_classifies a b c d e show ?thesis by blast
qed

text \<open>
  The claim as stated fails at the empty code and at the absent code of a pitch event
  without a type: neither is one of the known codes, and each is mapped to \<open>null\<close>, not
  to fastball.
\<close>

theorem mapPitchCodeToBucket_empty_counterexample:
  "[] \<notin> set known_codes
   \<and> mapPitchCodeToBucket (Some []) = None
   \<and> mapPitchCodeToBucket (code_of codelessPitch) = None"
  by (simp add: mapPitchCodeToBucket_def known_codes_def fastball_codes_def
      splitter_codes_def change_codes_def breaking_codes_def code_of_def codelessPitch_def)

section \<open>Normalization and the two distributions\<close>








section \<open>The absent context\<close>

text \<open>
  Claim C2, evaluated on the code. A play index out of range gives an absent context,
  and \<open>predictPitchType\<close> answers the absent context with its default. But
  \<open>recommendOptimalPitch\<close> throws on it.
\<close>

theorem null_context_outcomes:
  "fst (buildReplayPitchContext [] playIdx pitchIdx outsBefore st) = None
   \<and> predictPitchType None st = \<lparr>fastball = 0.33, breaking = 0.33, change = 0.34\<rparr>
   \<and> recommendOptimalPitch None st = Inl TypeError"
  by (simp add: buildReplayPitchContext_def at_index_def predictPitchType_def nullCtxMix_def
      recommendOptimalPitch_def)

section \<open>The tunnel detector\<close>





section \<open>The recommender reads only\<close>







section \<open>Batter vulnerability\<close>


lemma share_vuln:
  "share \<lparr>fastball = a, breaking = b, change = c\<rparr> fam
     = (case fam of Fastball \<Rightarrow> a | Breaking \<Rightarrow> b | Change \<Rightarrow> c)"
  by (simp add: share_def split: family.splits)








section \<open>Hits and hard hits\<close>

text \<open>The family bucket of the batter after \<open>updateBatterVsPitchStats\<close> with a family:
  the old bucket (or a fresh one) with the increments of this pitch. Hits and hard hits
  are counted on the last pitch only, a hard hit when the exit speed is at least 95, a
  hit when \<open>isHitEvent\<close> holds.\<close>

lemma updateBatterVsPitchStats_bucket:
  "Option.bind (batterVsPitchStats (updateBatterVsPitchStats pl p (Some fam) isLast z st)
      (batter_id pl)) (\<lambda>e. e fam)
   = Some (let old = (case batterVsPitchStats st (batter_id pl) of
                       None \<Rightarrow> zeroStats
                     | Some e \<Rightarrow> orDefault (e fam) zeroStats);
               desc = toLowerCase (orDefault (description_of p) []);
               swung = isSwing p
           in bumpStats old swung
                (swung \<and> str_includes desc ''swinging'' \<and> \<not> str_includes desc ''foul''
                   \<and> \<not> str_includes desc ''in play'')
                (isInPlay_of p \<or> str_includes desc ''in play'')
                (isLast \<and> isHitEvent pl)
                (isLast \<and> isHardHit p))"
  by (simp add: updateBatterVsPitchStats_def ensureBatterFamily_def ensureBatterZoneFamily_def
      Let_def orDefault_def split: option.splits)

lemma double_play_isHitEvent: "isHitEvent dpPlay"
  unfolding isHitEvent_def dpPlay_def samplePlay_def by code_simp

text \<open>
  Claim C5, evaluated on the code. The outcome \<open>grounded_into_double_play\<close> contains
  \<open>double\<close>, so the last pitch of a double play is counted as a hit: from the empty
  store, the fastball bucket of the batter holds one hit (and no hard hit, the exit speed
  being 88).
\<close>

theorem double_play_counted_as_hit:
  "map_option (\<lambda>s. (hits s, hardHit s))
     (Option.bind
        (batterVsPitchStats
           (updateBatterVsPitchStats dpPlay dpPitch (Some Fastball) True None emptyStore)
           (batter_id dpPlay))
        (\<lambda>e. e Fastball))
   = Some (1, 0)"
proof -
  have "batterVsPitchStats emptyStore (batter_id dpPlay) = None"
    by (simp add: emptyStore_def)
  moreover have "\<not> isHardHit dpPitch"
    by (simp add: isHardHit_def dpPitch_def samplePitch_def)
  ultimately show ?thesis
    unfolding updateBatterVsPitchStats_bucket
    by (simp add: double_play_isHitEvent Let_def bumpStats_def zeroStats_def)
qed

section \<open>Command misses and wildness\<close>

lemma commandStep_pitches: "pitches (commandStep cs v loc) = pitches cs + 1"
  by (simp add: commandStep_def Let_def split: option.splits)

lemma commandStep_side:
  "missesArm (commandStep cs v loc) + missesGlove (commandStep cs v loc)
     \<le> missesArm cs + missesGlove cs + 1"
  by (simp add: commandStep_def Let_def num_gt_def num_lt_def split: option.splits)

lemma commandStep_height_any:
  "missesHigh (commandStep cs v loc) \<le> missesHigh cs + 1
   \<and> missesLow (commandStep cs v loc) \<le> missesLow cs + 1"
  by (simp add: commandStep_def Let_def num_gt_def num_lt_def split: option.splits)

lemma commandStep_height:
  "zoneOrdered loc \<Longrightarrow>
   missesHigh (commandStep cs v loc) + missesLow (commandStep cs v loc)
     \<le> missesHigh cs + missesLow cs + 1"
  by (auto simp add: commandStep_def Let_def num_gt_def num_lt_def zoneOrdered_def
      split: option.splits)

lemma inv3_step: "inv3 cs \<Longrightarrow> inv3 (commandStep cs v loc)"
  using commandStep_pitches[of cs v loc] commandStep_side[of cs v loc]
    commandStep_height_any[of cs v loc]
  by (simp add: inv3_def)

lemma inv2_step: "zoneOrdered loc \<Longrightarrow> inv2 cs \<Longrightarrow> inv2 (commandStep cs v loc)"
  using commandStep_pitches[of cs v loc] commandStep_side[of cs v loc]
    commandStep_height[of loc cs v]
  by (simp add: inv2_def)

lemma inv_new: "inv2 newCommand \<and> inv3 newCommand"
  by (simp add: inv2_def inv3_def newCommand_def)

lemma update_inv3:
  "(\<forall>pid cs. pitcherCommandStats st pid = Some cs \<longrightarrow> inv3 cs) \<Longrightarrow>
   (\<forall>pid cs. pitcherCommandStats (updatePitcherCommand pl p loc st) pid = Some cs \<longrightarrow> inv3 cs)"
  using inv_new
  by (auto simp add: updatePitcherCommand_def Let_def orDefault_def inv3_step split: option.splits)

lemma update_inv2:
  "zoneOrdered loc \<Longrightarrow>
   (\<forall>pid cs. pitcherCommandStats st pid = Some cs \<longrightarrow> inv2 cs) \<Longrightarrow>
   (\<forall>pid cs. pitcherCommandStats (updatePitcherCommand pl p loc st) pid = Some cs \<longrightarrow> inv2 cs)"
  using inv_new
  by (auto simp add: updatePitcherCommand_def Let_def orDefault_def inv2_step split: option.splits)

lemma run_inv3:
  "(\<forall>pid cs. pitcherCommandStats st pid = Some cs \<longrightarrow> inv3 cs) \<Longrightarrow>
   (\<forall>pid cs. pitcherCommandStats (runCommands calls st) pid = Some cs \<longrightarrow> inv3 cs)"
proof (induction calls arbitrary: st)
  case Nil
  then show ?case by simp
next
  case (Cons c calls)
  obtain pl p loc where c: "c = (pl, p, loc)" by (cases c) auto
  from Cons.IH[OF update_inv3[OF Cons.prems, of pl p loc]] show ?case
    by (simp add: c)
qed

lemma run_inv2:
  "(\<forall>c \<in> set calls. zoneOrdered (snd (snd c))) \<Longrightarrow>
   (\<forall>pid cs. pitcherCommandStats st pid = Some cs \<longrightarrow> inv2 cs) \<Longrightarrow>
   (\<forall>pid cs. pitcherCommandStats (runCommands calls st) pid = Some cs \<longrightarrow> inv2 cs)"
proof (induction calls arbitrary: st)
  case Nil
  then show ?case by simp
next
  case (Cons c calls)
  obtain pl p loc where c: "c = (pl, p, loc)" by (cases c) auto
  from Cons.prems(1) have z: "zoneOrdered loc" and rest: "\<forall>c \<in> set calls. zoneOrdered (snd (snd c))"
    by (simp_all add: c)
  from Cons.IH[OF rest update_inv2[OF z Cons.prems(2), of pl p]] show ?case
    by (simp add: c)
qed

lemma wildness_le:
  assumes "\<forall>cs. pitcherCommandStats st pid = Some cs \<longrightarrow> misses cs \<le> k * pitches cs"
  shows "0 \<le> getPitcherWildness st pid \<and> getPitcherWildness st pid \<le> real k"
proof (cases "pitcherCommandStats st pid")
  case None
  then show ?thesis by (simp add: getPitcherWildness_def)
next
  case (Some cs)
  with assms have m: "misses cs \<le> k * pitches cs" by simp
  show ?thesis
  proof (cases "pitches cs < 10")
    case True
    then show ?thesis using Some by (simp add: getPitcherWildness_def)
  next
    case False
    then have pos: "0 < real (pitches cs)" by simp
    from m have "real (misses cs) \<le> real k * real (pitches cs)"
      by (metis of_nat_le_iff of_nat_mult)
    then have "real (misses cs) / real (pitches cs) \<le> real k"
      using pos by (simp add: pos_divide_le_eq)
    then show ?thesis
      using Some False by (simp add: getPitcherWildness_def misses_def)
  qed
qed

lemma misses_inv2: "inv2 cs \<Longrightarrow> misses cs \<le> 2 * pitches cs"
  by (simp add: inv2_def misses_def)

lemma misses_inv3: "inv3 cs \<Longrightarrow> misses cs \<le> 3 * pitches cs"
  by (simp add: inv3_def misses_def)

text \<open>
  Claim C10, as amended. Every call of \<open>updatePitcherCommand\<close> increments at most one of
  the arm-side and glove-side counters, and at most one of the high and low counters
  when the zone of the location is ordered (top not below bottom). So in every state
  reached from an empty command store by calls with ordered zones, the misses of a
  pitcher are at most twice the pitches and the wildness lies in [0, 2]; without the
  condition they are at most three times the pitches and the wildness lies in [0, 3].
  The wildness is not bounded by 1: ten pitches high and to the arm side give 2.
\<close>

theorem pitcher_wildness_bounds:
  "missesArm (commandStep cs v loc) + missesGlove (commandStep cs v loc)
      \<le> missesArm cs + missesGlove cs + 1
   \<and> (zoneOrdered loc \<longrightarrow>
        missesHigh (commandStep cs v loc) + missesLow (commandStep cs v loc)
          \<le> missesHigh cs + missesLow cs + 1)
   \<and> (pitcherCommandStats st0 = (\<lambda>k. None) \<longrightarrow>
        (\<forall>c \<in> set calls. zoneOrdered (snd (snd c))) \<longrightarrow>
        (\<forall>pid cs'. pitcherCommandStats (runCommands calls st0) pid = Some cs' \<longrightarrow>
           misses cs' \<le> 2 * pitches cs')
        \<and> (\<forall>pid. 0 \<le> getPitcherWildness (runCommands calls st0) pid
              \<and> getPitcherWildness (runCommands calls st0) pid \<le> 2))
   \<and> (pitcherCommandStats st0 = (\<lambda>k. None) \<longrightarrow>
        (\<forall>pid cs'. pitcherCommandStats (runCommands calls st0) pid = Some cs' \<longrightarrow>
           misses cs' \<le> 3 * pitches cs')
        \<and> (\<forall>pid. 0 \<le> getPitcherWildness (runCommands calls st0) pid
              \<and> getPitcherWildness (runCommands calls st0) pid \<le> 3))
   \<and> getPitcherWildness
         (runCommands (replicate 10 (dpPlay, dpPitch, Some wildLocation)) emptyStore) 1 = 2"
proof (intro conjI impI)
  show "missesArm (commandStep cs v loc) + missesGlove (commandStep cs v loc)
      \<le> missesArm cs + missesGlove cs + 1"
    by (rule commandStep_side)
next
  assume "zoneOrdered loc"
  then show "missesHigh (commandStep cs v loc) + missesLow (commandStep cs v loc)
          \<le> missesHigh cs + missesLow cs + 1"
    by (rule commandStep_height)
next
  assume e: "pitcherCommandStats st0 = (\<lambda>k. None)"
    and z: "\<forall>c \<in> set calls. zoneOrdered (snd (snd c))"
  from e have "\<forall>pid cs. pitcherCommandStats st0 pid = Some cs \<longrightarrow> inv2 cs"
    by simp
  from run_inv2[OF z this]
  show m: "\<forall>pid cs'. pitcherCommandStats (runCommands calls st0) pid = Some cs' \<longrightarrow>
           misses cs' \<le> 2 * pitches cs'"
    using misses_inv2 by blast
  show "\<forall>pid. 0 \<le> getPitcherWildness (runCommands calls st0) pid
              \<and> getPitcherWildness (runCommands calls st0) pid \<le> 2"
  proof
    fix pid
    from m have "\<forall>cs. pitcherCommandStats (runCommands calls st0) pid = Some cs \<longrightarrow>
        misses cs \<le> 2 * pitches cs"
      by blast
    from wildness_le[OF this]
    show "0 \<le> getPitcherWildness (runCommands calls st0) pid
              \<and> getPitcherWildness (runCommands calls st0) pid \<le> 2"
      by simp
  qed
next
  assume e: "pitcherCommandStats st0 = (\<lambda>k. None)"
  then have "\<forall>pid cs. pitcherCommandStats st0 pid = Some cs \<longrightarrow> inv3 cs"
    by simp
  from run_inv3[OF this]
  show m: "\<forall>pid cs'. pitcherCommandStats (runCommands calls st0) pid = Some cs' \<longrightarrow>
           misses cs' \<le> 3 * pitches cs'"
    using misses_inv3 by blast
  show "\<forall>pid. 0 \<le> getPitcherWildness (runCommands calls st0) pid
              \<and> getPitcherWildness (runCommands calls st0) pid \<le> 3"
  proof
    fix pid
    from m have "\<forall>cs. pitcherCommandStats (runCommands calls st0) pid = Some cs \<longrightarrow>
        misses cs \<le> 3 * pitches cs"
      by blast
    from wildness_le[OF this]
    show "0 \<le> getPitcherWildness (runCommands calls st0) pid
              \<and> getPitcherWildness (runCommands calls st0) pid \<le> 3"
      by simp
  qed
next
  show "getPitcherWildness
         (runCommands (replicate 10 (dpPlay, dpPitch, Some wildLocation)) emptyStore) 1 = 2"
    by code_simp
qed

theorem pitcher_wildness_bounds_witness:
  "zoneOrdered (Some wildLocation)
   \<and> pitcherCommandStats emptyStore = (\<lambda>k. None)
   \<and> getPitcherWildness
         (runCommands (replicate 12 (dpPlay, dpPitch, Some wildLocation)) emptyStore) 1 \<le> 2
   \<and> missesHigh (commandStep newCommand None (Some wildLocation))
        + missesLow (commandStep newCommand None (Some wildLocation)) \<le> 1"
proof -
  have z: "zoneOrdered (Some wildLocation)"
    by (simp add: zoneOrdered_def wildLocation_def noLocation_def)
  have e: "pitcherCommandStats emptyStore = (\<lambda>k. None)"
    by (simp add: emptyStore_def)
  have zs: "\<forall>c \<in> set (replicate 12 (dpPlay, dpPitch, Some wildLocation)).
      zoneOrdered (snd (snd c))"
    using z by simp
  from pitcher_wildness_bounds[of newCommand None "Some wildLocation" emptyStore
      "replicate 12 (dpPlay, dpPitch, Some wildLocation)"] z e zs
  show ?thesis
    by (simp add: newCommand_def)
qed

text \<open>
  The claim as stated fails for a location whose zone top lies below its bottom: a pitch
  between the two bounds is counted as a miss high and as a miss low by the same call.
\<close>

theorem updatePitcherCommand_both_counterexample:
  "map_option (\<lambda>cs. (missesHigh cs, missesLow cs))
     (pitcherCommandStats
        (updatePitcherCommand dpPlay dpPitch (Some invertedLocation) emptyStore) 1)
   = Some (1, 1)"
  by code_simp

section \<open>The coordinate cache\<close>











section \<open>The replay step\<close>

lemma sameProfiles_refl: "sameProfiles a a"
  by (simp add: sameProfiles_def)

lemma sameProfiles_sameCounters: "sameProfiles a b \<Longrightarrow> sameCounters a b"
  by (simp add: sameProfiles_def sameCounters_def familyCounters_def fun_eq_iff)

lemma sameCounters_trans: "sameCounters a b \<Longrightarrow> sameCounters b c \<Longrightarrow> sameCounters a c"
  by (simp add: sameCounters_def)

lemma sameProfiles_trans: "sameProfiles a b \<Longrightarrow> sameProfiles b c \<Longrightarrow> sameProfiles a c"
  by (simp add: sameProfiles_def)

lemma sameProfiles_sym: "sameProfiles a b \<Longrightarrow> sameProfiles b a"
  by (simp add: sameProfiles_def)

lemma beforeContext_profiles: "sameProfiles (beforeContext pl p st) st"
  by (simp add: beforeContext_def sameProfiles_def analyzeSequence_def Let_def
      split: option.splits)

lemma detectChanges_profiles: "sameProfiles (detectChanges pl st) st"
  by (simp add: detectChanges_def sameProfiles_def Let_def)

lemma stripRates_withRates: "stripRates (withRates s) = stripRates s"
  by (simp add: stripRates_def withRates_def)

lemma getBatterVsPitchProfile_counters:
  "sameCounters (snd (getBatterVsPitchProfile b st)) st"
  by (auto simp add: getBatterVsPitchProfile_def sameCounters_def familyCounters_def Let_def
      fun_eq_iff stripRates_withRates option.map_comp comp_def split: option.splits)

lemma sameProfiles_cache: "sameProfiles (st\<lparr>pitchCoordCache := c\<rparr>) st"
  by (simp add: sameProfiles_def)

lemma sameProfiles_lastCtx: "sameProfiles (st\<lparr>lastCtx := x\<rparr>) st"
  by (simp add: sameProfiles_def)

lemma buildReplayPitchContext_snd:
  "snd (buildReplayPitchContext g i j n st) =
     (case at_index g i of
        None \<Rightarrow> st
      | Some pl \<Rightarrow>
        (case at_index (playEvents pl) j of
           None \<Rightarrow> snd (getBatterVsPitchProfile (batter_id pl) st)
         | Some p \<Rightarrow>
           (case getPitchCoordinates g i j (pitchCoordCache st) of
              Inl e \<Rightarrow> st
            | Inr r \<Rightarrow>
                (snd (getBatterVsPitchProfile (batter_id pl) (st\<lparr>pitchCoordCache := snd r\<rparr>)))
                  \<lparr>lastCtx := Some \<lparr>lastPitchType = code_of p, location = Some (fst r)\<rparr>\<rparr>)))"
  unfolding buildReplayPitchContext_def
  by (simp add: Let_def case_prod_beta split: option.splits sum.splits)

lemma buildReplayPitchContext_counters:
  "sameCounters (snd (buildReplayPitchContext g i j n st)) st"
proof -
  have c: "sameCounters ((snd (getBatterVsPitchProfile b (st\<lparr>pitchCoordCache := c\<rparr>)))\<lparr>lastCtx := x\<rparr>) st"
    for b c x
    by (rule sameCounters_trans[OF sameProfiles_sameCounters[OF sameProfiles_lastCtx]
          sameCounters_trans[OF getBatterVsPitchProfile_counters
            sameProfiles_sameCounters[OF sameProfiles_cache]]])
  show ?thesis
    unfolding buildReplayPitchContext_snd
    using c getBatterVsPitchProfile_counters[of _ st]
      sameProfiles_sameCounters[OF sameProfiles_refl[of st]]
    by (simp split: option.splits sum.splits)
qed

lemma updatePitcherStats_frame:
  "batterAggressionStats (updatePitcherStats pl p st) = batterAggressionStats st"
  "batterVsPitchStats (updatePitcherStats pl p st) = batterVsPitchStats st"
  "batterVsZoneStats (updatePitcherStats pl p st) = batterVsZoneStats st"
  "pitcherCommandStats (updatePitcherStats pl p st) = pitcherCommandStats st"
  by (simp_all add: updatePitcherStats_def Let_def split: option.splits)

lemma updateBatterStats_frame:
  "pitcherGameStats (updateBatterStats pl p st) = pitcherGameStats st"
  "batterVsPitchStats (updateBatterStats pl p st) = batterVsPitchStats st"
  "batterVsZoneStats (updateBatterStats pl p st) = batterVsZoneStats st"
  "pitcherCommandStats (updateBatterStats pl p st) = pitcherCommandStats st"
  by (simp_all add: updateBatterStats_def Let_def)

lemma updatePitcherCommand_frame:
  "pitcherGameStats (updatePitcherCommand pl p loc st) = pitcherGameStats st"
  "batterAggressionStats (updatePitcherCommand pl p loc st) = batterAggressionStats st"
  "batterVsPitchStats (updatePitcherCommand pl p loc st) = batterVsPitchStats st"
  "batterVsZoneStats (updatePitcherCommand pl p loc st) = batterVsZoneStats st"
  by (simp_all add: updatePitcherCommand_def Let_def)

lemma ensureBatterFamily_frame:
  "pitcherGameStats (ensureBatterFamily b fam st) = pitcherGameStats st"
  "batterAggressionStats (ensureBatterFamily b fam st) = batterAggressionStats st"
  "batterVsZoneStats (ensureBatterFamily b fam st) = batterVsZoneStats st"
  "pitcherCommandStats (ensureBatterFamily b fam st) = pitcherCommandStats st"
  by (simp_all add: ensureBatterFamily_def Let_def)

lemma ensureBatterZoneFamily_frame:
  "pitcherGameStats (ensureBatterZoneFamily b z fam st) = pitcherGameStats st"
  "batterAggressionStats (ensureBatterZoneFamily b z fam st) = batterAggressionStats st"
  "batterVsPitchStats (ensureBatterZoneFamily b z fam st) = batterVsPitchStats st"
  "pitcherCommandStats (ensureBatterZoneFamily b z fam st) = pitcherCommandStats st"
  by (simp_all add: ensureBatterZoneFamily_def split: option.splits)

lemma updateBatterVsPitchStats_frame:
  "pitcherGameStats (updateBatterVsPitchStats pl p bucket l z st) = pitcherGameStats st"
  "batterAggressionStats (updateBatterVsPitchStats pl p bucket l z st) = batterAggressionStats st"
  "pitcherCommandStats (updateBatterVsPitchStats pl p bucket l z st) = pitcherCommandStats st"
  by (simp_all add: updateBatterVsPitchStats_def Let_def ensureBatterFamily_frame
      ensureBatterZoneFamily_frame split: option.splits)

lemma updateBatterVsPitchStats_none:
  "updateBatterVsPitchStats pl p None l z st = st"
  by (simp add: updateBatterVsPitchStats_def)

lemmas update_frames = updatePitcherStats_frame updateBatterStats_frame
  updatePitcherCommand_frame updateBatterVsPitchStats_frame

lemma applyUpdates_components:
  "pitcherGameStats (applyUpdates pl p l cx st) = pitcherGameStats (updatePitcherStats pl p st)"
  "batterAggressionStats (applyUpdates pl p l cx st)
     = batterAggressionStats (updateBatterStats pl p st)"
  "pitcherCommandStats (applyUpdates pl p l cx st)
     = pitcherCommandStats (updatePitcherCommand pl p (Option.bind cx location) st)"
  by (simp_all add: applyUpdates_def Let_def update_frames updatePitcherCommand_def
      updateBatterStats_def)

lemma updatePitcherStats_cong:
  "pitcherGameStats a = pitcherGameStats b \<Longrightarrow>
   pitcherGameStats (updatePitcherStats pl p a) = pitcherGameStats (updatePitcherStats pl p b)"
  by (simp add: updatePitcherStats_def Let_def split: option.splits)

lemma updateBatterStats_cong:
  "batterAggressionStats a = batterAggressionStats b \<Longrightarrow>
   batterAggressionStats (updateBatterStats pl p a) = batterAggressionStats (updateBatterStats pl p b)"
  by (simp add: updateBatterStats_def Let_def)

lemma updatePitcherCommand_cong:
  "pitcherCommandStats a = pitcherCommandStats b \<Longrightarrow>
   pitcherCommandStats (updatePitcherCommand pl p loc a)
     = pitcherCommandStats (updatePitcherCommand pl p loc b)"
  by (simp add: updatePitcherCommand_def Let_def)

lemma updateBatterVsPitchStats_cong:
  "batterVsPitchStats a = batterVsPitchStats b \<Longrightarrow>
   batterVsZoneStats a = batterVsZoneStats b \<Longrightarrow>
   batterVsPitchStats (updateBatterVsPitchStats pl p bucket l z a)
     = batterVsPitchStats (updateBatterVsPitchStats pl p bucket l z b)
   \<and> batterVsZoneStats (updateBatterVsPitchStats pl p bucket l z a)
     = batterVsZoneStats (updateBatterVsPitchStats pl p bucket l z b)"
  by (simp add: updateBatterVsPitchStats_def ensureBatterFamily_def ensureBatterZoneFamily_def
      Let_def split: option.splits)

lemma applyUpdates_vs:
  "batterVsPitchStats (applyUpdates pl p l cx st)
     = batterVsPitchStats (updateBatterVsPitchStats pl p (mapPitchCodeToBucket (code_of p)) l
          (zoneForThisPitch cx) st)
   \<and> batterVsZoneStats (applyUpdates pl p l cx st)
     = batterVsZoneStats (updateBatterVsPitchStats pl p (mapPitchCodeToBucket (code_of p)) l
          (zoneForThisPitch cx) st)"
  unfolding applyUpdates_def Let_def
  by (rule updateBatterVsPitchStats_cong) (simp_all add: update_frames)

lemma applyUpdates_cong:
  assumes "sameProfiles a b"
  shows "sameProfiles (applyUpdates pl p l cx a) (applyUpdates pl p l cx b)"
proof -
  from assms have e: "pitcherGameStats a = pitcherGameStats b"
    "batterAggressionStats a = batterAggressionStats b"
    "batterVsPitchStats a = batterVsPitchStats b"
    "batterVsZoneStats a = batterVsZoneStats b"
    "pitcherCommandStats a = pitcherCommandStats b"
    by (simp_all add: sameProfiles_def)
  show ?thesis
    unfolding sameProfiles_def applyUpdates_components
    using updatePitcherStats_cong[OF e(1)] updateBatterStats_cong[OF e(2)]
      updatePitcherCommand_cong[OF e(5)] updateBatterVsPitchStats_cong[OF e(3) e(4)]
    by (simp add: applyUpdates_vs)
qed

lemma applyUpdates_pitchesSeen:
  "pitchesSeen (applyUpdates pl p l cx st)
     = (pitchesSeen st)(batter_id pl := pitchesSeen st (batter_id pl) + 1)"
  by (rule ext)
    (simp add: pitchesSeen_def applyUpdates_components updateBatterStats_def Let_def
      orDefault_def split: option.splits)

lemma applyUpdates_pitchesThrown:
  "pitchesThrown (applyUpdates pl p l cx st)
     = (pitchesThrown st)(pitcher_id pl := pitchesThrown st (pitcher_id pl) + 1)"
  by (rule ext)
    (simp add: pitchesThrown_def applyUpdates_components updatePitcherCommand_def Let_def
      orDefault_def commandStep_pitches newCommand_def split: option.splits)

lemma applyUpdates_usageTotal:
  "usageTotal (applyUpdates pl p l cx st)
     = (case mapPitchCodeToBucket (code_of p) of
          None \<Rightarrow> usageTotal st
        | Some fam \<Rightarrow> (usageTotal st)(pitcher_id pl := usageTotal st (pitcher_id pl) + 1))"
  by (rule ext)
    (simp add: usageTotal_def applyUpdates_components updatePitcherStats_def Let_def
      orDefault_def newGameStats_def split: option.splits family.splits)

lemma seen_bumpStats: "seen (bumpStats s a b c d e) = seen s + 1"
  by (simp add: bumpStats_def)

lemma stripRates_seen: "seen (stripRates s) = seen s"
  by (simp add: stripRates_def)

lemma ensureBatterZoneFamily_vsPitch:
  "batterVsPitchStats (ensureBatterZoneFamily b z fam st) = batterVsPitchStats st"
  by (simp add: ensureBatterZoneFamily_def split: option.splits)

lemma updateBatterVsPitchStats_vsPitch:
  "batterVsPitchStats (updateBatterVsPitchStats pl p (Some fam) l z st)
     = (let entry = (case batterVsPitchStats st (batter_id pl) of
                       None \<Rightarrow> (\<lambda>f. Some zeroStats) | Some e \<Rightarrow> e);
            desc = toLowerCase (orDefault (description_of p) []);
            swung = isSwing p
        in (batterVsPitchStats st)(batter_id pl \<mapsto>
             entry(fam \<mapsto> bumpStats (orDefault (entry fam) zeroStats) swung
                (swung \<and> str_includes desc ''swinging'' \<and> \<not> str_includes desc ''foul''
                   \<and> \<not> str_includes desc ''in play'')
                (isInPlay_of p \<or> str_includes desc ''in play'')
                (if l then isHitEvent pl else False)
                (if l then isHardHit p else False))))"
proof (cases z)
  case None
  then show ?thesis
    by (simp add: updateBatterVsPitchStats_def ensureBatterFamily_def Let_def orDefault_def
        split: option.splits)
next
  case (Some zz)
  then show ?thesis
    by (simp add: updateBatterVsPitchStats_def ensureBatterFamily_def Let_def orDefault_def
        ensureBatterZoneFamily_vsPitch split: option.splits)
qed

lemma updateBatterVsPitchStats_familySeen:
  "familySeen (updateBatterVsPitchStats pl p (Some fam) l z st)
     = (\<lambda>b f. if b = batter_id pl \<and> f = fam then familySeen st b f + 1 else familySeen st b f)"
  by (rule ext, rule ext)
    (simp add: familySeen_def familyCounters_def updateBatterVsPitchStats_vsPitch
      Let_def orDefault_def seen_bumpStats stripRates_seen zeroStats_def split: option.splits)

lemma updateBatterVsPitchStats_zoneSeen_some:
  "zoneSeen (updateBatterVsPitchStats pl p (Some fam) l (Some z) st)
     = (\<lambda>b z' f. if b = batter_id pl \<and> z' = z \<and> f = fam
                   then zoneSeen st b z' f + 1 else zoneSeen st b z' f)"
  by (rule ext, rule ext, rule ext)
    (simp add: zoneSeen_def updateBatterVsPitchStats_def
      ensureBatterFamily_def ensureBatterZoneFamily_def Let_def orDefault_def seen_bumpStats
      zeroStats_def split: option.splits)

lemma updateBatterVsPitchStats_zoneSeen_none:
  "zoneSeen (updateBatterVsPitchStats pl p bucket l None st) = zoneSeen st"
  by (rule ext, rule ext, rule ext)
    (simp add: zoneSeen_def updateBatterVsPitchStats_def
      ensureBatterFamily_def Let_def split: option.splits)
lemma familySeen_cong:
  "batterVsPitchStats a = batterVsPitchStats b \<Longrightarrow> familySeen a = familySeen b"
  by (rule ext, rule ext) (simp add: familySeen_def familyCounters_def)

lemma zoneSeen_cong:
  "batterVsZoneStats a = batterVsZoneStats b \<Longrightarrow> zoneSeen a = zoneSeen b"
  by (rule ext, rule ext, rule ext) (simp add: zoneSeen_def)

lemma sameCounters_views:
  assumes "sameCounters a b"
  shows "pitchesSeen a = pitchesSeen b" "pitchesThrown a = pitchesThrown b"
    "usageTotal a = usageTotal b" "familySeen a = familySeen b" "zoneSeen a = zoneSeen b"
  using assms
  by (simp_all add: sameCounters_def fun_eq_iff pitchesSeen_def pitchesThrown_def
      usageTotal_def familySeen_def zoneSeen_def)

lemma applyUpdates_familySeen:
  "familySeen (applyUpdates pl p l cx st)
     = (case mapPitchCodeToBucket (code_of p) of
          None \<Rightarrow> familySeen st
        | Some fam \<Rightarrow>
            (\<lambda>b f. if b = batter_id pl \<and> f = fam then familySeen st b f + 1
                    else familySeen st b f))"
proof (cases "mapPitchCodeToBucket (code_of p)")
  case None
  then show ?thesis
    using familySeen_cong[OF applyUpdates_vs[THEN conjunct1], of pl p l cx st]
    by (simp add: updateBatterVsPitchStats_none)
next
  case (Some fam)
  then show ?thesis
    using familySeen_cong[OF applyUpdates_vs[THEN conjunct1], of pl p l cx st]
    by (simp add: updateBatterVsPitchStats_familySeen)
qed

lemma applyUpdates_zoneSeen:
  "zoneSeen (applyUpdates pl p l cx st)
     = (case (mapPitchCodeToBucket (code_of p), zoneForThisPitch cx) of
          (Some fam, Some z) \<Rightarrow>
            (\<lambda>b z' f. if b = batter_id pl \<and> z' = z \<and> f = fam then zoneSeen st b z' f + 1
                       else zoneSeen st b z' f)
        | _ \<Rightarrow> zoneSeen st)"
proof -
  note c = zoneSeen_cong[OF applyUpdates_vs[THEN conjunct2], of pl p l cx st]
  show ?thesis
  proof (cases "mapPitchCodeToBucket (code_of p)")
    case None
    then show ?thesis using c by (simp add: updateBatterVsPitchStats_none)
  next
    case (Some fam)
    show ?thesis
    proof (cases "zoneForThisPitch cx")
      case None
      then show ?thesis using c Some by (simp add: updateBatterVsPitchStats_zoneSeen_none)
    next
      case (Some z)
      then show ?thesis using c \<open>mapPitchCodeToBucket (code_of p) = Some fam\<close>
        by (simp add: updateBatterVsPitchStats_zoneSeen_some)
    qed
  qed
qed

lemma processPitch_result:
  assumes "processPitch g i j pl p st0 = Inr (out, st1)"
  shows "\<exists>stc. buildReplayPitchContext g i j (simulatedOuts (beforeContext pl p st0))
                 (beforeContext pl p st0) = (out_ctx out, stc)
           \<and> likelyMix out = predictPitchType (out_ctx out) stc
           \<and> recommendOptimalPitch (out_ctx out) stc = Inr (optimalPitch out)
           \<and> sameProfiles st1 (applyUpdates pl p (isLastPitchOf pl j) (out_ctx out) stc)
           \<and> pitchPointer st1 = pitchPointer st0 + 1"
proof -
  let ?stb = "beforeContext pl p st0"
  obtain cx stc where b: "buildReplayPitchContext g i j (simulatedOuts ?stb) ?stb = (cx, stc)"
    by (cases "buildReplayPitchContext g i j (simulatedOuts ?stb) ?stb") auto
  from assms b obtain opt where r: "recommendOptimalPitch cx stc = Inr opt"
    by (cases "recommendOptimalPitch cx stc") (simp_all add: processPitch_def Let_def)
  let ?st5 = "applyUpdates pl p (isLastPitchOf pl j) cx (detectChanges pl stc)"
  from assms b r have out: "out = \<lparr>out_ctx = cx, likelyMix = predictPitchType cx stc,
      optimalPitch = opt\<rparr>"
    by (simp add: processPitch_def Let_def)
  from assms b r have prof: "sameProfiles st1 ?st5"
    by (auto simp add: processPitch_def Let_def sameProfiles_def split: if_splits)
  have p1: "pitchPointer stc = pitchPointer ?stb"
    using b buildReplayPitchContext_snd[of g i j "simulatedOuts ?stb" ?stb]
    by (simp add: getBatterVsPitchProfile_def Let_def split: option.splits sum.splits)
  have p2: "pitchPointer ?stb = pitchPointer st0"
    by (simp add: beforeContext_def analyzeSequence_def Let_def split: option.splits)
  have p3: "pitchPointer ?st5 = pitchPointer stc"
    by (simp add: applyUpdates_def updatePitcherStats_def updateBatterStats_def
        updatePitcherCommand_def updateBatterVsPitchStats_def ensureBatterFamily_def
        ensureBatterZoneFamily_def detectChanges_def Let_def split: option.splits)
  from assms b r have "pitchPointer st1 = pitchPointer ?st5 + 1"
    by (auto simp add: processPitch_def Let_def split: if_splits)
  with p1 p2 p3 have ptr: "pitchPointer st1 = pitchPointer st0 + 1"
    by simp
  from prof applyUpdates_cong[OF detectChanges_profiles[of pl stc]]
  have "sameProfiles st1 (applyUpdates pl p (isLastPitchOf pl j) cx stc)"
    by (rule sameProfiles_trans)
  with b r out ptr show ?thesis
    by simp
qed

lemma handleReplayMode_step_aux:
  assumes "handleReplayMode g st = Inr (Some out, st')"
  shows "\<exists>i j pl p stb stc.
     pitchPointer (replayState g st) < length (pitchIndexMap (replayState g st))
     \<and> pitchIndexMap (replayState g st) ! pitchPointer (replayState g st) = (i, j)
     \<and> at_index g i = Some pl \<and> at_index (playEvents pl) j = Some p
     \<and> sameProfiles stb (replayState g st)
     \<and> buildReplayPitchContext g i j (simulatedOuts stb) stb = (out_ctx out, stc)
     \<and> sameCounters stc (replayState g st)
     \<and> likelyMix out = predictPitchType (out_ctx out) stc
     \<and> recommendOptimalPitch (out_ctx out) stc = Inr (optimalPitch out)
     \<and> sameProfiles st' (applyUpdates pl p (isLastPitchOf pl j) (out_ctx out) stc)
     \<and> pitchesSeen st'
         = (pitchesSeen (replayState g st))
             (batter_id pl := pitchesSeen (replayState g st) (batter_id pl) + 1)
     \<and> pitchesThrown st'
         = (pitchesThrown (replayState g st))
             (pitcher_id pl := pitchesThrown (replayState g st) (pitcher_id pl) + 1)
     \<and> usageTotal st'
         = (case mapPitchCodeToBucket (code_of p) of
              None \<Rightarrow> usageTotal (replayState g st)
            | Some fam \<Rightarrow>
                (usageTotal (replayState g st))
                  (pitcher_id pl := usageTotal (replayState g st) (pitcher_id pl) + 1))
     \<and> familySeen st'
         = (case mapPitchCodeToBucket (code_of p) of
              None \<Rightarrow> familySeen (replayState g st)
            | Some fam \<Rightarrow>
                (\<lambda>b f. if b = batter_id pl \<and> f = fam
                        then familySeen (replayState g st) b f + 1
                        else familySeen (replayState g st) b f))
     \<and> zoneSeen st'
         = (case (mapPitchCodeToBucket (code_of p), zoneForThisPitch (out_ctx out)) of
              (Some fam, Some z) \<Rightarrow>
                (\<lambda>b z' f. if b = batter_id pl \<and> z' = z \<and> f = fam
                           then zoneSeen (replayState g st) b z' f + 1
                           else zoneSeen (replayState g st) b z' f)
            | _ \<Rightarrow> zoneSeen (replayState g st))
     \<and> pitchPointer st' = pitchPointer (replayState g st) + 1"
proof -
  let ?st0 = "replayState g st"
  from assms have lt: "pitchPointer ?st0 < length (pitchIndexMap ?st0)"
    by (auto simp add: handleReplayMode_def Let_def split: if_splits)
  obtain i j where ij: "pitchIndexMap ?st0 ! pitchPointer ?st0 = (i, j)"
    by (cases "pitchIndexMap ?st0 ! pitchPointer ?st0") auto
  from assms lt ij obtain pl where pl: "at_index g i = Some pl"
    by (cases "at_index g i") (simp_all add: handleReplayMode_def Let_def)
  from assms lt ij pl obtain p where p: "at_index (playEvents pl) j = Some p"
    by (cases "at_index (playEvents pl) j") (simp_all add: handleReplayMode_def Let_def)
  from assms lt ij pl p have pp: "processPitch g i j pl p ?st0 = Inr (out, st')"
    by (simp add: handleReplayMode_def Let_def split: sum.splits prod.splits)
  let ?stb = "beforeContext pl p ?st0"
  from processPitch_result[OF pp] obtain stc where
    b: "buildReplayPitchContext g i j (simulatedOuts ?stb) ?stb = (out_ctx out, stc)"
    and lk: "likelyMix out = predictPitchType (out_ctx out) stc"
    and rc: "recommendOptimalPitch (out_ctx out) stc = Inr (optimalPitch out)"
    and pr: "sameProfiles st' (applyUpdates pl p (isLastPitchOf pl j) (out_ctx out) stc)"
    and ptr: "pitchPointer st' = pitchPointer ?st0 + 1"
    by blast
  have sb: "sameProfiles ?stb ?st0"
    by (rule beforeContext_profiles)
  from buildReplayPitchContext_counters[of g i j "simulatedOuts ?stb" ?stb] b
  have "sameCounters stc ?stb"
    by simp
  then have sc: "sameCounters stc ?st0"
    using sameProfiles_sameCounters[OF sb] by (rule sameCounters_trans)
  note v0 = sameCounters_views[OF sc]
  note v1 = sameCounters_views[OF sameProfiles_sameCounters[OF pr]]
  have c1: "pitchesSeen st'
         = (pitchesSeen ?st0)(batter_id pl := pitchesSeen ?st0 (batter_id pl) + 1)"
    unfolding v1(1) applyUpdates_pitchesSeen v0(1) by (rule refl)
  have c2: "pitchesThrown st'
         = (pitchesThrown ?st0)(pitcher_id pl := pitchesThrown ?st0 (pitcher_id pl) + 1)"
    unfolding v1(2) applyUpdates_pitchesThrown v0(2) by (rule refl)
  have c3: "usageTotal st'
         = (case mapPitchCodeToBucket (code_of p) of
              None \<Rightarrow> usageTotal ?st0
            | Some fam \<Rightarrow>
                (usageTotal ?st0)(pitcher_id pl := usageTotal ?st0 (pitcher_id pl) + 1))"
    unfolding v1(3) applyUpdates_usageTotal v0(3) by (rule refl)
  have c4: "familySeen st'
         = (case mapPitchCodeToBucket (code_of p) of
              None \<Rightarrow> familySeen ?st0
            | Some fam \<Rightarrow>
                (\<lambda>b f. if b = batter_id pl \<and> f = fam then familySeen ?st0 b f + 1
                        else familySeen ?st0 b f))"
    unfolding v1(4) applyUpdates_familySeen v0(4) by (rule refl)
  have c5: "zoneSeen st'
         = (case (mapPitchCodeToBucket (code_of p), zoneForThisPitch (out_ctx out)) of
              (Some fam, Some z) \<Rightarrow>
                (\<lambda>b z' f. if b = batter_id pl \<and> z' = z \<and> f = fam
                           then zoneSeen ?st0 b z' f + 1 else zoneSeen ?st0 b z' f)
            | _ \<Rightarrow> zoneSeen ?st0)"
    unfolding v1(5) applyUpdates_zoneSeen v0(5) by (rule refl)
  show ?thesis
    apply (rule exI[of _ i], rule exI[of _ j], rule exI[of _ pl], rule exI[of _ p])
    apply (rule exI[of _ ?stb], rule exI[of _ stc])
    apply (intro conjI)
    apply (rule lt) apply (rule ij) apply (rule pl) apply (rule p) apply (rule sb)
    apply (rule b) apply (rule sc) apply (rule lk) apply (rule rc) apply (rule pr)
    apply (rule c1) apply (rule c2) apply (rule c3) apply (rule c4) apply (rule c5)
    apply (rule ptr)
    done
qed

lemma getPitchCoordinates_total:
  "at_index g i = Some pl \<Longrightarrow> \<exists>r. getPitchCoordinates g i j cache = Inr r"
  by (simp add: getPitchCoordinates_def Let_def split: option.splits prod.splits)

lemma buildReplayPitchContext_some:
  assumes "at_index g i = Some pl" and "at_index (playEvents pl) j = Some p"
  shows "\<exists>c. fst (buildReplayPitchContext g i j n st) = Some c"
proof -
  from getPitchCoordinates_total[OF assms(1), of j "pitchCoordCache st"]
  obtain r where "getPitchCoordinates g i j (pitchCoordCache st) = Inr r"
    by blast
  with assms show ?thesis
    by (simp add: buildReplayPitchContext_def Let_def case_prod_beta)
qed

lemma processPitch_progress:
  assumes "at_index g i = Some pl" and "at_index (playEvents pl) j = Some p"
  shows "\<exists>out st1. processPitch g i j pl p st0 = Inr (out, st1)"
proof -
  let ?stb = "beforeContext pl p st0"
  from buildReplayPitchContext_some[OF assms, of "simulatedOuts ?stb" ?stb]
  obtain c where "fst (buildReplayPitchContext g i j (simulatedOuts ?stb) ?stb) = Some c"
    by blast
  then show ?thesis
    by (simp add: processPitch_def Let_def case_prod_beta recommendOptimalPitch_def)
qed

lemma handleReplayMode_progress:
  assumes "pitchPointer (replayState g st) < length (pitchIndexMap (replayState g st))"
    and "pitchIndexMap (replayState g st) ! pitchPointer (replayState g st) = (i, j)"
    and "at_index g i = Some pl" and "at_index (playEvents pl) j = Some p"
  shows "\<exists>out st'. handleReplayMode g st = Inr (Some out, st')"
proof -
  from processPitch_progress[OF assms(3,4), of "replayState g st"]
  obtain out st1 where "processPitch g i j pl p (replayState g st) = Inr (out, st1)"
    by blast
  with assms show ?thesis
    by (simp add: handleReplayMode_def Let_def)
qed

lemma dpGame_start:
  "pitchIndexMap (replayState dpGame emptyStore) = [(0, 0)]"
  "pitchPointer (replayState dpGame emptyStore) = 0"
  "pitchesSeen (replayState dpGame emptyStore) = (\<lambda>b. 0)"
  "pitchesThrown (replayState dpGame emptyStore) = (\<lambda>b. 0)"
  "usageTotal (replayState dpGame emptyStore) = (\<lambda>b. 0)"
  "familySeen (replayState dpGame emptyStore) = (\<lambda>b f. 0)"
  by (simp_all add: replayState_def startReplay_def emptyStore_def buildPitchIndexMap_def
      dpGame_def dpPlay_def samplePlay_def dpPitch_def samplePitch_def pitchesSeen_def
      pitchesThrown_def usageTotal_def familySeen_def familyCounters_def fun_eq_iff)

lemma codelessGame_start:
  "pitchIndexMap (replayState codelessGame emptyStore) = [(0, 0)]"
  "pitchPointer (replayState codelessGame emptyStore) = 0"
  "pitchesSeen (replayState codelessGame emptyStore) = (\<lambda>b. 0)"
  "pitchesThrown (replayState codelessGame emptyStore) = (\<lambda>b. 0)"
  "usageTotal (replayState codelessGame emptyStore) = (\<lambda>b. 0)"
  "familySeen (replayState codelessGame emptyStore) = (\<lambda>b f. 0)"
  by (simp_all add: replayState_def startReplay_def emptyStore_def buildPitchIndexMap_def
      codelessGame_def samplePlay_def codelessPitch_def pitchesSeen_def
      pitchesThrown_def usageTotal_def familySeen_def familyCounters_def fun_eq_iff)

lemma dp_bucket: "mapPitchCodeToBucket (code_of dpPitch) = Some Fastball"
  unfolding dpPitch_def samplePitch_def code_of_def by code_simp

lemma codeless_bucket: "mapPitchCodeToBucket (code_of codelessPitch) = None"
  by (simp add: codelessPitch_def code_of_def mapPitchCodeToBucket_def)

text \<open>
  Claim C8, as amended. Take a call of \<open>handleReplayMode\<close> that processes a pitch and
  completes. The context is built in a state \<open>stb\<close> that holds the profile stores of the
  start of the step (\<open>replayState\<close>: the given state, reset on the first call), and the
  likely mix and the optimal pitch are computed in the state \<open>stc\<close> that the context
  assembly leaves, whose profile counters are still those of the start: the only profile
  write before the outputs is \<open>getBatterVsPitchProfile\<close> attaching the three rates to the
  batter's buckets. The profile stores after the step are those of the four updates
  applied once to \<open>stc\<close>: the pitches seen by the batter and the pitches thrown by the
  pitcher (command store) grow by exactly one; the pitcher's usage total and the batter's
  family bucket grow by one when the pitch has a type code, and not at all otherwise;
  the batter's zone bucket grows by one when in addition the location is a true
  location; no other total changes. The pointer advances by one, and the next call
  starts from this state.
\<close>

theorem handleReplayMode_step:
  assumes "handleReplayMode g st = Inr (Some out, st')"
  shows "\<exists>i j pl p stb stc.
     pitchPointer (replayState g st) < length (pitchIndexMap (replayState g st))
     \<and> pitchIndexMap (replayState g st) ! pitchPointer (replayState g st) = (i, j)
     \<and> at_index g i = Some pl \<and> at_index (playEvents pl) j = Some p
     \<and> sameProfiles stb (replayState g st)
     \<and> buildReplayPitchContext g i j (simulatedOuts stb) stb = (out_ctx out, stc)
     \<and> sameCounters stc (replayState g st)
     \<and> likelyMix out = predictPitchType (out_ctx out) stc
     \<and> recommendOptimalPitch (out_ctx out) stc = Inr (optimalPitch out)
     \<and> sameProfiles st' (applyUpdates pl p (isLastPitchOf pl j) (out_ctx out) stc)
     \<and> pitchesSeen st'
         = (pitchesSeen (replayState g st))
             (batter_id pl := pitchesSeen (replayState g st) (batter_id pl) + 1)
     \<and> pitchesThrown st'
         = (pitchesThrown (replayState g st))
             (pitcher_id pl := pitchesThrown (replayState g st) (pitcher_id pl) + 1)
     \<and> usageTotal st'
         = (case mapPitchCodeToBucket (code_of p) of
              None \<Rightarrow> usageTotal (replayState g st)
            | Some fam \<Rightarrow>
                (usageTotal (replayState g st))
                  (pitcher_id pl := usageTotal (replayState g st) (pitcher_id pl) + 1))
     \<and> familySeen st'
         = (case mapPitchCodeToBucket (code_of p) of
              None \<Rightarrow> familySeen (replayState g st)
            | Some fam \<Rightarrow>
                (\<lambda>b f. if b = batter_id pl \<and> f = fam
                        then familySeen (replayState g st) b f + 1
                        else familySeen (replayState g st) b f))
     \<and> zoneSeen st'
         = (case (mapPitchCodeToBucket (code_of p), zoneForThisPitch (out_ctx out)) of
              (Some fam, Some z) \<Rightarrow>
                (\<lambda>b z' f. if b = batter_id pl \<and> z' = z \<and> f = fam
                           then zoneSeen (replayState g st) b z' f + 1
                           else zoneSeen (replayState g st) b z' f)
            | _ \<Rightarrow> zoneSeen (replayState g st))
     \<and> pitchPointer st' = pitchPointer (replayState g st) + 1"
  using assms by (rule handleReplayMode_step_aux)

theorem handleReplayMode_step_witness:
  "\<exists>out st'. handleReplayMode dpGame emptyStore = Inr (Some out, st')
     \<and> pitchesSeen st' 2 = 1 \<and> pitchesThrown st' 1 = 1 \<and> usageTotal st' 1 = 1
     \<and> familySeen st' 2 Fastball = 1 \<and> pitchPointer st' = 1"
proof -
  have a: "at_index dpGame 0 = Some dpPlay"
    by (simp add: dpGame_def at_index_def)
  have b: "at_index (playEvents dpPlay) 0 = Some dpPitch"
    by (simp add: dpPlay_def samplePlay_def at_index_def)
  have ids: "batter_id dpPlay = 2" "pitcher_id dpPlay = 1"
    by (simp_all add: dpPlay_def samplePlay_def)
  from handleReplayMode_progress[OF _ _ a b, of emptyStore]
  obtain out st' where h: "handleReplayMode dpGame emptyStore = Inr (Some out, st')"
    by (auto simp add: dpGame_start)
  from handleReplayMode_step[OF h] obtain i j pl p where
    ij: "pitchIndexMap (replayState dpGame emptyStore) ! pitchPointer (replayState dpGame emptyStore)
           = (i, j)"
    and pl: "at_index dpGame i = Some pl" and p: "at_index (playEvents pl) j = Some p"
    and c1: "pitchesSeen st'
         = (pitchesSeen (replayState dpGame emptyStore))
             (batter_id pl := pitchesSeen (replayState dpGame emptyStore) (batter_id pl) + 1)"
    and c2: "pitchesThrown st'
         = (pitchesThrown (replayState dpGame emptyStore))
             (pitcher_id pl := pitchesThrown (replayState dpGame emptyStore) (pitcher_id pl) + 1)"
    and c3: "usageTotal st'
         = (case mapPitchCodeToBucket (code_of p) of
              None \<Rightarrow> usageTotal (replayState dpGame emptyStore)
            | Some fam \<Rightarrow>
                (usageTotal (replayState dpGame emptyStore))
                  (pitcher_id pl := usageTotal (replayState dpGame emptyStore) (pitcher_id pl) + 1))"
    and c4: "familySeen st'
         = (case mapPitchCodeToBucket (code_of p) of
              None \<Rightarrow> familySeen (replayState dpGame emptyStore)
            | Some fam \<Rightarrow>
                (\<lambda>b f. if b = batter_id pl \<and> f = fam
                        then familySeen (replayState dpGame emptyStore) b f + 1
                        else familySeen (replayState dpGame emptyStore) b f))"
    and ptr: "pitchPointer st' = pitchPointer (replayState dpGame emptyStore) + 1"
    by (elim exE conjE)
  from ij have "i = 0" "j = 0"
    by (simp_all add: dpGame_start)
  with pl p a b have e: "pl = dpPlay" "p = dpPitch"
    by simp_all
  from c1 c2 c3 c4 ptr have "pitchesSeen st' 2 = 1 \<and> pitchesThrown st' 1 = 1
      \<and> usageTotal st' 1 = 1 \<and> familySeen st' 2 Fastball = 1 \<and> pitchPointer st' = 1"
    by (simp add: e ids dpGame_start dp_bucket)
  with h show ?thesis
    by blast
qed

text \<open>
  The claim as stated fails in two ways. A pitch event without a type code completes
  its step with the batter's and the command store's pitch counted, and with no write
  to the pitcher usage store or the batter-vs-family store. And the context assembly,
  which runs before the prediction, writes the rates on the batter's buckets.
\<close>

theorem handleReplayMode_codeless_counterexample:
  "(\<exists>out st'. handleReplayMode codelessGame emptyStore = Inr (Some out, st')
      \<and> pitchesSeen st' 2 = 1 \<and> pitchesThrown st' 1 = 1
      \<and> usageTotal st' 1 = 0 \<and> familySeen st' 2 = (\<lambda>f. 0))
   \<and> Option.bind (batterVsPitchStats (ensureBatterFamily 2 Fastball emptyStore) 2)
        (\<lambda>e. map_option whiffRate (e Fastball)) = Some None
   \<and> Option.bind
       (batterVsPitchStats
          (snd (buildReplayPitchContext dpGame 0 0 0 (ensureBatterFamily 2 Fastball emptyStore))) 2)
       (\<lambda>e. map_option whiffRate (e Fastball)) = Some (Some 0)"
proof -
  let ?pl = "samplePlay ''walk'' [codelessPitch]"
  have a: "at_index codelessGame 0 = Some ?pl"
    by (simp add: codelessGame_def at_index_def)
  have b: "at_index (playEvents ?pl) 0 = Some codelessPitch"
    by (simp add: samplePlay_def at_index_def)
  have ids: "batter_id ?pl = 2" "pitcher_id ?pl = 1"
    by (simp_all add: samplePlay_def)
  from handleReplayMode_progress[OF _ _ a b, of emptyStore]
  obtain out st' where h: "handleReplayMode codelessGame emptyStore = Inr (Some out, st')"
    by (auto simp add: codelessGame_start)
  from handleReplayMode_step_aux[OF h] obtain i j pl p where
    ij: "pitchIndexMap (replayState codelessGame emptyStore)
           ! pitchPointer (replayState codelessGame emptyStore) = (i, j)"
    and pl: "at_index codelessGame i = Some pl" and p: "at_index (playEvents pl) j = Some p"
    and c1: "pitchesSeen st'
         = (pitchesSeen (replayState codelessGame emptyStore))
             (batter_id pl := pitchesSeen (replayState codelessGame emptyStore) (batter_id pl) + 1)"
    and c2: "pitchesThrown st'
         = (pitchesThrown (replayState codelessGame emptyStore))
             (pitcher_id pl :=
                pitchesThrown (replayState codelessGame emptyStore) (pitcher_id pl) + 1)"
    and c3: "usageTotal st'
         = (case mapPitchCodeToBucket (code_of p) of
              None \<Rightarrow> usageTotal (replayState codelessGame emptyStore)
            | Some fam \<Rightarrow>
                (usageTotal (replayState codelessGame emptyStore))
                  (pitcher_id pl :=
                     usageTotal (replayState codelessGame emptyStore) (pitcher_id pl) + 1))"
    and c4: "familySeen st'
         = (case mapPitchCodeToBucket (code_of p) of
              None \<Rightarrow> familySeen (replayState codelessGame emptyStore)
            | Some fam \<Rightarrow>
                (\<lambda>b f. if b = batter_id pl \<and> f = fam
                        then familySeen (replayState codelessGame emptyStore) b f + 1
                        else familySeen (replayState codelessGame emptyStore) b f))"
    by (elim exE conjE)
  from ij have "i = 0" "j = 0"
    by (simp_all add: codelessGame_start)
  with pl p a b have e: "pl = ?pl" "p = codelessPitch"
    by simp_all
  from c1 c2 c3 c4 have "pitchesSeen st' 2 = 1 \<and> pitchesThrown st' 1 = 1
      \<and> usageTotal st' 1 = 0 \<and> familySeen st' 2 = (\<lambda>f. 0)"
    by (simp add: e ids codelessGame_start codeless_bucket)
  with h have first: "\<exists>out st'. handleReplayMode codelessGame emptyStore = Inr (Some out, st')
      \<and> pitchesSeen st' 2 = 1 \<and> pitchesThrown st' 1 = 1
      \<and> usageTotal st' 1 = 0 \<and> familySeen st' 2 = (\<lambda>f. 0)"
    by blast
  have second: "Option.bind (batterVsPitchStats (ensureBatterFamily 2 Fastball emptyStore) 2)
        (\<lambda>e. map_option whiffRate (e Fastball)) = Some None
   \<and> Option.bind
       (batterVsPitchStats
          (snd (buildReplayPitchContext dpGame 0 0 0 (ensureBatterFamily 2 Fastball emptyStore))) 2)
       (\<lambda>e. map_option whiffRate (e Fastball)) = Some (Some 0)"
    by code_simp
  from first second show ?thesis
    by (rule conjI)
qed

end
